theory Spec2Isabelle
  imports Main "HOL-Library.Product_Lexorder"
begin

section \<open>Data model (models.py)\<close>

text \<open>
  The enums of models.py. \<^verbatim>\<open>ChatType\<close> and \<^verbatim>\<open>MemberRole\<close> have a single member each.
\<close>

datatype ChatType = PRIVATE

datatype MessageType = TEXT | FILE | SYSTEM

datatype MemberRole = PARTICIPANT

datatype MemberStatus = ACTIVE | BLOCKED | LEFT

text \<open>
  A Python \<^verbatim>\<open>datetime\<close>: the value of the database's \<^verbatim>\<open>now()\<close> and of
  \<^verbatim>\<open>datetime.utcnow()\<close>. Two datetimes compare as their field tuples do.
\<close>

record datetime =
  year :: nat
  month :: nat
  day :: nat
  hour :: nat
  minute :: nat
  second :: nat
  microsecond :: nat

definition datetime_key :: "datetime \<Rightarrow> nat \<times> nat \<times> nat \<times> nat \<times> nat \<times> nat \<times> nat" where
  "datetime_key t = (year t, month t, day t, hour t, minute t, second t, microsecond t)"

text \<open>The rows of the five tables. Column \<^verbatim>\<open>id\<close> of table T is field \<open>T_id\<close>.\<close>

record User =
  user_id :: int
  user_username :: string
  user_email :: string
  user_password :: string
  user_created_at :: datetime
  user_updated_at :: "datetime option"

record Chat =
  chat_id :: int
  chat_name :: "string option"
  chat_description :: "string option"
  chat_type :: ChatType
  chat_creator_id :: int
  chat_recipient_id :: int
  chat_created_at :: datetime
  chat_is_active :: bool

record Message =
  msg_id :: int
  msg_content :: string
  msg_message_type :: MessageType
  msg_author_id :: int
  msg_chat_id :: int
  msg_created_at :: datetime
  msg_updated_at :: "datetime option"
  msg_is_deleted :: bool

record FileAttachment =
  att_id :: int
  att_filename :: string
  att_file_path :: string
  att_file_size :: nat
  att_mime_type :: string
  att_message_id :: int
  att_uploaded_at :: datetime

record ChatMember =
  member_id :: int
  member_user_id :: int
  member_chat_id :: int
  member_role :: MemberRole
  member_status :: MemberStatus
  member_joined_at :: datetime

text \<open>
  The state every operation of chat\_operations.py works on: the tables behind the
  SQLAlchemy session \<^verbatim>\<open>db\<close>, each a list of rows in insertion order, and the two parts of
  the environment the operations read or write: the clock (\<open>now\<close>) and the files of the
  upload directory (\<open>uploads\<close>, path to content).

  models.py declares foreign keys, and the database refuses at commit a row whose user,
  chat or message id has no row (IntegrityError). \<^verbatim>\<open>upload_file\<close>, whose message id is
  any integer, has that refusal as a branch. The membership and chat operations are given
  on ids that have rows, as their callers pass them; a theorem about one of their inserts
  has the existence of the rows referenced as a hypothesis.
\<close>

record Session =
  users :: "User list"
  chats :: "Chat list"
  chat_members :: "ChatMember list"
  messages :: "Message list"
  file_attachments :: "FileAttachment list"
  now :: datetime
  uploads :: "string \<rightharpoonup> string"

text \<open>
  \<^verbatim>\<open>raise HTTPException(status_code=..., detail=...)\<close>: the only exception the
  operations raise themselves.
\<close>

datatype HTTPException = HTTPException (status_code: nat) (detail: string)

abbreviation HTTP_400_BAD_REQUEST :: nat where "HTTP_400_BAD_REQUEST \<equiv> 400"
abbreviation HTTP_403_FORBIDDEN :: nat where "HTTP_403_FORBIDDEN \<equiv> 403"
abbreviation HTTP_404_NOT_FOUND :: nat where "HTTP_404_NOT_FOUND \<equiv> 404"

text \<open>
  The value an autoincrement primary key gets on insert: an id above every id of the
  table.
\<close>

definition next_id :: "int list \<Rightarrow> int" where
  "next_id ids = fold max ids 0 + 1"

section \<open>Membership (chat\_operations.py)\<close>

text \<open>
  The query of the ACTIVE membership row of a user in a chat,
  \<^verbatim>\<open>db.query(ChatMember).filter(chat_id == .., user_id == .., status == ACTIVE).first()\<close>,
  which \<^verbatim>\<open>_ensure_user_membership\<close>, \<^verbatim>\<open>send_message\<close> and \<^verbatim>\<open>is_user_in_chat\<close> all run.
\<close>

definition active_member :: "Session \<Rightarrow> int \<Rightarrow> int \<Rightarrow> ChatMember option" where
  "active_member db cid uid =
     find (\<lambda>m. member_chat_id m = cid \<and> member_user_id m = uid \<and> member_status m = ACTIVE)
       (chat_members db)"

text \<open>
  \<^verbatim>\<open>db.add(ChatMember(user_id, chat_id, role=PARTICIPANT, status=ACTIVE))\<close>: the row as the
  insert stores it, with the server defaults filled in.
\<close>

definition new_member :: "Session \<Rightarrow> int \<Rightarrow> int \<Rightarrow> ChatMember" where
  "new_member db uid cid =
     \<lparr> member_id = next_id (map member_id (chat_members db)),
       member_user_id = uid,
       member_chat_id = cid,
       member_role = PARTICIPANT,
       member_status = ACTIVE,
       member_joined_at = now db \<rparr>"

definition add_ChatMember :: "Session \<Rightarrow> int \<Rightarrow> int \<Rightarrow> Session" where
  "add_ChatMember db uid cid = db\<lparr> chat_members := chat_members db @ [new_member db uid cid] \<rparr>"

text \<open>
  \<^verbatim>\<open>_ensure_user_membership(db, chat_id, user_id)\<close>, for a chat id and a user id that
  have rows: every call site passes the id of a chat row it has read and that chat's
  creator or recipient.
\<close>

definition ensure_user_membership :: "Session \<Rightarrow> int \<Rightarrow> int \<Rightarrow> Session" where
  "ensure_user_membership db cid uid =
     (case active_member db cid uid of
        Some member \<Rightarrow> db
      | None \<Rightarrow> add_ChatMember db uid cid)"

text \<open>\<^verbatim>\<open>is_user_in_chat(db, chat_id, user_id)\<close>: the new state and the answer.\<close>

definition is_user_in_chat :: "Session \<Rightarrow> int \<Rightarrow> int \<Rightarrow> Session \<times> bool" where
  "is_user_in_chat db cid uid =
     (case active_member db cid uid of
        Some member \<Rightarrow> (db, True)
      | None \<Rightarrow>
          (case find (\<lambda>c. chat_id c = cid) (chats db) of
             None \<Rightarrow> (db, False)
           | Some chat \<Rightarrow>
               if chat_creator_id chat = uid \<or> chat_recipient_id chat = uid
               then (ensure_user_membership db cid uid, True)
               else (db, False)))"

text \<open>\<^verbatim>\<open>add_member_to_chat(db, chat_id, user_id, role)\<close>\<close>

definition add_member_to_chat :: "Session \<Rightarrow> int \<Rightarrow> int \<Rightarrow> HTTPException + Session \<times> ChatMember" where
  "add_member_to_chat db cid uid =
     (case find (\<lambda>m. member_chat_id m = cid \<and> member_user_id m = uid) (chat_members db) of
        Some existing_member \<Rightarrow>
          Inl (HTTPException HTTP_400_BAD_REQUEST ''User is already a member of this chat'')
      | None \<Rightarrow> Inr (add_ChatMember db uid cid, new_member db uid cid))"

text \<open>
  The membership invariant: no two ACTIVE rows for one pair of chat and user.
\<close>

definition is_active_row :: "int \<Rightarrow> int \<Rightarrow> ChatMember \<Rightarrow> bool" where
  "is_active_row cid uid m =
     (member_chat_id m = cid \<and> member_user_id m = uid \<and> member_status m = ACTIVE)"

definition active_pairs :: "ChatMember list \<Rightarrow> (int \<times> int) list" where
  "active_pairs ms =
     map (\<lambda>m. (member_chat_id m, member_user_id m)) (filter (\<lambda>m. member_status m = ACTIVE) ms)"

definition at_most_one_active :: "Session \<Rightarrow> bool" where
  "at_most_one_active db = distinct (active_pairs (chat_members db))"

definition primary_key :: "int list \<Rightarrow> bool" where
  "primary_key ids = distinct ids"

text \<open>
  The startup sweep of main.py (\<^verbatim>\<open>lifespan\<close>): for every chat, ensure the membership of its
  creator and of its recipient.
\<close>

definition ensure_both :: "Chat \<Rightarrow> Session \<Rightarrow> Session" where
  "ensure_both chat db =
     ensure_user_membership (ensure_user_membership db (chat_id chat) (chat_creator_id chat))
       (chat_id chat) (chat_recipient_id chat)"

definition lifespan_startup :: "Session \<Rightarrow> Session" where
  "lifespan_startup db = fold ensure_both (chats db) db"

section \<open>Chat directory (chat\_operations.py)\<close>

text \<open>
  The query both \<^verbatim>\<open>create_private_chat\<close> and \<^verbatim>\<open>get_or_create_private_chat\<close> run for the
  chat of two users: the first PRIVATE row with the two ids as creator and recipient, in
  either order.
\<close>

definition find_private_chat :: "Session \<Rightarrow> int \<Rightarrow> int \<Rightarrow> Chat option" where
  "find_private_chat db a b =
     find (\<lambda>c. ((chat_creator_id c = a \<and> chat_recipient_id c = b) \<or>
                (chat_creator_id c = b \<and> chat_recipient_id c = a)) \<and>
               chat_type c = PRIVATE)
       (chats db)"

definition new_chat :: "Session \<Rightarrow> int \<Rightarrow> int \<Rightarrow> Chat" where
  "new_chat db creator_id recipient_id =
     \<lparr> chat_id = next_id (map chat_id (chats db)),
       chat_name = None,
       chat_description = None,
       chat_type = PRIVATE,
       chat_creator_id = creator_id,
       chat_recipient_id = recipient_id,
       chat_created_at = now db,
       chat_is_active = True \<rparr>"

text \<open>
  \<^verbatim>\<open>create_private_chat(db, creator_id, recipient_id)\<close>, for a creator that has a user row:
  main.py passes the authenticated user. The recipient is looked up by the code itself.
\<close>

definition create_private_chat :: "Session \<Rightarrow> int \<Rightarrow> int \<Rightarrow> HTTPException + Session \<times> Chat" where
  "create_private_chat db creator_id recipient_id =
     (case find (\<lambda>u. user_id u = recipient_id) (users db) of
        None \<Rightarrow> Inl (HTTPException HTTP_404_NOT_FOUND ''Recipient user not found'')
      | Some recipient \<Rightarrow>
          if creator_id = recipient_id
          then Inl (HTTPException HTTP_400_BAD_REQUEST ''Cannot create chat with yourself'')
          else
            (case find_private_chat db creator_id recipient_id of
               Some existing_chat \<Rightarrow>
                 Inr (ensure_user_membership
                        (ensure_user_membership db (chat_id existing_chat) creator_id)
                        (chat_id existing_chat) recipient_id,
                      existing_chat)
             | None \<Rightarrow>
                 (let chat = new_chat db creator_id recipient_id;
                      db1 = db\<lparr> chats := chats db @ [chat] \<rparr>;
                      db2 = add_ChatMember db1 creator_id (chat_id chat);
                      db3 = add_ChatMember db2 recipient_id (chat_id chat)
                  in Inr (db3, chat))))"

text \<open>\<^verbatim>\<open>get_or_create_private_chat(db, user_id, other_user_id)\<close>\<close>

definition get_or_create_private_chat :: "Session \<Rightarrow> int \<Rightarrow> int \<Rightarrow> HTTPException + Session \<times> Chat" where
  "get_or_create_private_chat db uid other_user_id =
     (case find_private_chat db uid other_user_id of
        Some existing_chat \<Rightarrow> Inr (db, existing_chat)
      | None \<Rightarrow> create_private_chat db uid other_user_id)"

text \<open>\<^verbatim>\<open>get_user_chats(db, user_id)\<close>\<close>

definition get_user_chats :: "Session \<Rightarrow> int \<Rightarrow> Session \<times> Chat list" where
  "get_user_chats db uid =
     (let member_rows =
            filter (\<lambda>m. member_user_id m = uid \<and> member_status m = ACTIVE) (chat_members db);
          member_chat_ids = set (map member_chat_id member_rows);
          implicit_chats =
            filter (\<lambda>c. chat_creator_id c = uid \<or> chat_recipient_id c = uid) (chats db);
          implicit_chat_ids = set (map chat_id implicit_chats);
          db1 = fold ensure_both implicit_chats db;
          all_chat_ids = member_chat_ids \<union> implicit_chat_ids
      in if all_chat_ids = {} then (db1, [])
         else (db1, filter (\<lambda>c. chat_id c \<in> all_chat_ids) (chats db1)))"

text \<open>\<^verbatim>\<open>get_chat_participants(db, chat_id)\<close>\<close>

definition get_chat_participants :: "Session \<Rightarrow> int \<Rightarrow> User list" where
  "get_chat_participants db cid =
     (let members =
            filter (\<lambda>m. member_chat_id m = cid \<and> member_status m = ACTIVE) (chat_members db);
          user_ids = map member_user_id members
      in filter (\<lambda>u. user_id u \<in> set user_ids) (users db))"

section \<open>Message ledger (chat\_operations.py)\<close>

text \<open>
  The dict \<^verbatim>\<open>message_data\<close>: \<^verbatim>\<open>MessageCreate.dict()\<close> with the chat id stored into it. The
  key \<^verbatim>\<open>message_type\<close> is read with \<^verbatim>\<open>.get\<close> and may be absent.
\<close>

record message_data =
  md_chat_id :: int
  md_content :: string
  md_message_type :: "MessageType option"

definition new_message :: "Session \<Rightarrow> message_data \<Rightarrow> int \<Rightarrow> Message" where
  "new_message db md author_id =
     \<lparr> msg_id = next_id (map msg_id (messages db)),
       msg_content = md_content md,
       msg_message_type = (case md_message_type md of None \<Rightarrow> TEXT | Some t \<Rightarrow> t),
       msg_author_id = author_id,
       msg_chat_id = md_chat_id md,
       msg_created_at = now db,
       msg_updated_at = None,
       msg_is_deleted = False \<rparr>"

text \<open>
  The membership check at the head of \<^verbatim>\<open>send_message\<close>: the ACTIVE row, looked up again
  after \<^verbatim>\<open>_ensure_user_membership\<close> when the author is the chat's creator or recipient.
\<close>

definition send_message_member :: "Session \<Rightarrow> int \<Rightarrow> int \<Rightarrow> Session \<times> ChatMember option" where
  "send_message_member db cid author_id =
     (case active_member db cid author_id of
        Some member \<Rightarrow> (db, Some member)
      | None \<Rightarrow>
          (case find (\<lambda>c. chat_id c = cid) (chats db) of
             None \<Rightarrow> (db, None)
           | Some chat \<Rightarrow>
               if chat_creator_id chat = author_id \<or> chat_recipient_id chat = author_id
               then (let db1 = ensure_user_membership db (chat_id chat) author_id
                     in (db1, active_member db1 cid author_id))
               else (db, None)))"

text \<open>\<^verbatim>\<open>send_message(db, message_data, author_id)\<close>\<close>

definition send_message :: "Session \<Rightarrow> message_data \<Rightarrow> int \<Rightarrow> HTTPException + Session \<times> Message" where
  "send_message db md author_id =
     (case send_message_member db (md_chat_id md) author_id of
        (db1, None) \<Rightarrow>
          Inl (HTTPException HTTP_403_FORBIDDEN ''You are not a member of this chat'')
      | (db1, Some member) \<Rightarrow>
          (let message = new_message db1 md author_id
           in Inr (db1\<lparr> messages := messages db1 @ [message] \<rparr>, message)))"

text \<open>
  \<^verbatim>\<open>UPDATE messages SET ... WHERE id = message_id\<close>, the statement a commit issues for a
  changed row.
\<close>

definition update_message :: "Session \<Rightarrow> int \<Rightarrow> (Message \<Rightarrow> Message) \<Rightarrow> Session" where
  "update_message db message_id f =
     db\<lparr> messages := map (\<lambda>m. if msg_id m = message_id then f m else m) (messages db) \<rparr>"

text \<open>\<^verbatim>\<open>edit_message(db, message_id, new_content, user_id)\<close>\<close>

definition edit_message :: "Session \<Rightarrow> int \<Rightarrow> string \<Rightarrow> int \<Rightarrow> HTTPException + Session \<times> Message" where
  "edit_message db message_id new_content uid =
     (case find (\<lambda>m. msg_id m = message_id) (messages db) of
        None \<Rightarrow> Inl (HTTPException HTTP_404_NOT_FOUND ''Message not found'')
      | Some message \<Rightarrow>
          if msg_author_id message \<noteq> uid
          then Inl (HTTPException HTTP_403_FORBIDDEN ''You can only edit your own messages'')
          else if msg_is_deleted message
          then Inl (HTTPException HTTP_400_BAD_REQUEST ''Cannot edit deleted message'')
          else
            (let f = (\<lambda>m. m\<lparr> msg_content := new_content, msg_updated_at := Some (now db) \<rparr>)
             in Inr (update_message db message_id f, f message)))"

text \<open>
  \<^verbatim>\<open>delete_message(db, message_id, user_id)\<close>. Column \<^verbatim>\<open>updated_at\<close> is declared with
  \<^verbatim>\<open>onupdate=func.now()\<close>, so the UPDATE that sets the flag sets it too; a row whose flag is
  set already has no change to write.
\<close>

definition delete_message :: "Session \<Rightarrow> int \<Rightarrow> int \<Rightarrow> HTTPException + Session \<times> bool" where
  "delete_message db message_id uid =
     (case find (\<lambda>m. msg_id m = message_id) (messages db) of
        None \<Rightarrow> Inl (HTTPException HTTP_404_NOT_FOUND ''Message not found'')
      | Some message \<Rightarrow>
          if msg_author_id message \<noteq> uid
          then Inl (HTTPException HTTP_403_FORBIDDEN ''You can only delete your own messages'')
          else if msg_is_deleted message then Inr (db, True)
          else
            Inr (update_message db message_id
                   (\<lambda>m. m\<lparr> msg_is_deleted := True, msg_updated_at := Some (now db) \<rparr>),
                 True))"

text \<open>
  \<^verbatim>\<open>get_chat_messages(db, chat_id, skip=0, limit=50)\<close>. \<^verbatim>\<open>skip\<close> and \<^verbatim>\<open>limit\<close> are an OFFSET
  and a LIMIT, hence not negative. Rows with the same \<^verbatim>\<open>created_at\<close> come latest insert
  first.
\<close>

definition get_chat_messages :: "Session \<Rightarrow> int \<Rightarrow> nat \<Rightarrow> nat \<Rightarrow> Message list" where
  "get_chat_messages db cid skip limit =
     take limit (drop skip
       (rev (sort_key (\<lambda>m. datetime_key (msg_created_at m))
          (filter (\<lambda>m. msg_chat_id m = cid \<and> msg_is_deleted m = False) (messages db)))))"

definition skip_default :: nat where
  "skip_default = 0"

definition limit_default :: nat where
  "limit_default = 50"

section \<open>Attachment registrar (chat\_operations.py)\<close>

definition UPLOAD_DIR :: string where
  "UPLOAD_DIR = ''uploads''"

definition MAX_FILE_SIZE :: nat where
  "MAX_FILE_SIZE = 10 * 1024 * 1024"

definition ALLOWED_EXTENSIONS :: "string set" where
  "ALLOWED_EXTENSIONS =
     {''.txt'', ''.pdf'', ''.doc'', ''.docx'', ''.jpg'', ''.jpeg'', ''.png'', ''.gif''}"

text \<open>
  The \<^verbatim>\<open>UploadFile\<close> an upload arrives as: \<^verbatim>\<open>size\<close> and \<^verbatim>\<open>content_type\<close> are optional,
  \<^verbatim>\<open>file\<close> is the stream of its bytes.
\<close>

record UploadFile =
  uf_filename :: string
  uf_size :: "nat option"
  uf_content_type :: "string option"
  uf_file :: string

text \<open>
  The library functions \<^verbatim>\<open>upload_file\<close> calls. \<^verbatim>\<open>str.rfind\<close> for one character: the
  highest index it stands at, or -1.
\<close>

definition rfind :: "string \<Rightarrow> char \<Rightarrow> int" where
  "rfind p c = fold (\<lambda>(i, x) r. if x = c then int i else r) (enumerate 0 p) (- 1)"

text \<open>
  \<^verbatim>\<open>os.path.splitext\<close> (posixpath): the extension starts at the last dot of the last path
  component, unless only dots stand before it there.
\<close>

function splitext_loop :: "string \<Rightarrow> nat \<Rightarrow> nat \<Rightarrow> string \<times> string" where
  "splitext_loop p filenameIndex dotIndex =
     (if filenameIndex < dotIndex
      then (if p ! filenameIndex \<noteq> CHR ''.''
            then (take dotIndex p, drop dotIndex p)
            else splitext_loop p (Suc filenameIndex) dotIndex)
      else (p, []))"
  by pat_completeness auto
termination
  by (relation "measure (\<lambda>(p, filenameIndex, dotIndex). dotIndex - filenameIndex)") auto

definition splitext :: "string \<Rightarrow> string \<times> string" where
  "splitext p =
     (let sepIndex = rfind p (CHR ''/'');
          dotIndex = rfind p (CHR ''.'')
      in if dotIndex > sepIndex
         then splitext_loop p (nat (sepIndex + 1)) (nat dotIndex)
         else (p, []))"

text \<open>\<^verbatim>\<open>str.lower\<close> on the ASCII letters.\<close>

definition char_lower :: "char \<Rightarrow> char" where
  "char_lower c =
     (case map_of (zip ''ABCDEFGHIJKLMNOPQRSTUVWXYZ'' ''abcdefghijklmnopqrstuvwxyz'') c of
        None \<Rightarrow> c
      | Some l \<Rightarrow> l)"

definition lower :: "string \<Rightarrow> string" where
  "lower s = map char_lower s"

text \<open>
  \<^verbatim>\<open>strftime("%Y%m%d_%H%M%S")\<close>: the year in decimal, the other fields on two digits.
\<close>

fun str_nat :: "nat \<Rightarrow> string" where
  "str_nat n =
     (if n < 10 then [''0123456789'' ! n]
      else str_nat (n div 10) @ [''0123456789'' ! (n mod 10)])"

declare str_nat.simps [simp del]

definition two_digits :: "nat \<Rightarrow> string" where
  "two_digits n = (if n < 10 then CHR ''0'' # str_nat n else str_nat n)"

definition strftime :: "datetime \<Rightarrow> string" where
  "strftime t =
     str_nat (year t) @ two_digits (month t) @ two_digits (day t) @ ''_'' @
     two_digits (hour t) @ two_digits (minute t) @ two_digits (second t)"

text \<open>\<^verbatim>\<open>os.path.join\<close> (posixpath) of two components.\<close>

definition path_join :: "string \<Rightarrow> string \<Rightarrow> string" where
  "path_join a b =
     (if b \<noteq> [] \<and> hd b = CHR ''/'' then b
      else if a = [] \<or> last a = CHR ''/'' then a @ b
      else a @ ''/'' @ b)"

text \<open>
  What \<^verbatim>\<open>upload_file\<close> raises: an \<^verbatim>\<open>HTTPException\<close> of its own, the \<^verbatim>\<open>OSError\<close> of
  \<^verbatim>\<open>open\<close> (FileNotFoundError or NotADirectoryError), or the IntegrityError of the commit.
\<close>

datatype Raised = Http HTTPException | OSError | IntegrityError

text \<open>
  \<^verbatim>\<open>upload_file(db, file, message_id)\<close>: the exception with the state it leaves, or the new
  state with the attachment. The upload directory holds files only, so \<^verbatim>\<open>open\<close> fails for
  a file name with a path separator. \<^verbatim>\<open>os.path.getsize\<close> of the file just written is the
  number of bytes copied from the stream. The commit is refused when no message has the
  id; the file written stays.
\<close>

definition upload_file ::
  "Session \<Rightarrow> UploadFile \<Rightarrow> int \<Rightarrow> Raised \<times> Session + Session \<times> FileAttachment" where
  "upload_file db file message_id =
     (if (case uf_size file of None \<Rightarrow> False | Some n \<Rightarrow> n \<noteq> 0 \<and> n > MAX_FILE_SIZE)
      then Inl (Http (HTTPException HTTP_400_BAD_REQUEST
                        ''File size exceeds maximum allowed size''), db)
      else
        (let file_extension = lower (snd (splitext (uf_filename file)))
         in if file_extension \<notin> ALLOWED_EXTENSIONS
            then Inl (Http (HTTPException HTTP_400_BAD_REQUEST ''File type not allowed''), db)
            else
              (let timestamp = strftime (now db);
                   safe_filename = timestamp @ ''_'' @ uf_filename file;
                   file_path = path_join UPLOAD_DIR safe_filename
               in if CHR ''/'' \<in> set safe_filename then Inl (OSError, db)
                  else
                    (let fs = (uploads db)(file_path \<mapsto> uf_file file);
                         attachment =
                           \<lparr> att_id = next_id (map att_id (file_attachments db)),
                             att_filename = uf_filename file,
                             att_file_path = file_path,
                             att_file_size =
                               (case fs file_path of None \<Rightarrow> 0 | Some bytes \<Rightarrow> length bytes),
                             att_mime_type =
                               (case uf_content_type file of
                                  None \<Rightarrow> ''application/octet-stream''
                                | Some t \<Rightarrow> if t = [] then ''application/octet-stream'' else t),
                             att_message_id = message_id,
                             att_uploaded_at = now db \<rparr>
                     in if message_id \<notin> set (map msg_id (messages db))
                        then Inl (IntegrityError, db\<lparr> uploads := fs \<rparr>)
                        else Inr (db\<lparr> uploads := fs,
                                     file_attachments := file_attachments db @ [attachment] \<rparr>,
                                  attachment)))))"

text \<open>
  The invariants of section 3 of the specification, as predicates on a state: at most one
  PRIVATE chat for an unordered pair of users, and the bounds of a stored attachment.
\<close>

definition unordered_pair :: "Chat \<Rightarrow> int \<times> int" where
  "unordered_pair c =
     (min (chat_creator_id c) (chat_recipient_id c), max (chat_creator_id c) (chat_recipient_id c))"

definition at_most_one_private_chat :: "Session \<Rightarrow> bool" where
  "at_most_one_private_chat db =
     distinct (map unordered_pair (filter (\<lambda>c. chat_type c = PRIVATE) (chats db)))"


text \<open>The ids of the Identity Store, and the data model's conditions on the chat rows: creator
  and recipient differ and both are users.\<close>

definition user_ids :: "Session \<Rightarrow> int set" where
  "user_ids db = set (map user_id (users db))"

definition chats_wellformed :: "Session \<Rightarrow> bool" where
  "chats_wellformed db =
     list_all (\<lambda>c. chat_creator_id c \<noteq> chat_recipient_id c \<and>
                  chat_creator_id c \<in> user_ids db \<and> chat_recipient_id c \<in> user_ids db)
       (chats db)"

text \<open>A page of messages in the order of \<^verbatim>\<open>created_at\<close> descending.\<close>

definition newest_first :: "Message list \<Rightarrow> bool" where
  "newest_first ms =
     sorted_wrt (\<lambda>x y. datetime_key (msg_created_at y) \<le> datetime_key (msg_created_at x)) ms"

text \<open>
  The states the operations reach from empty tables: users register, the clock moves, the
  startup sweep runs, and the operations main.py exposes are called, the chat operations
  for an existing user as main.py calls them. The
  invariant they keep: at most one ACTIVE row for a pair, and membership rows of existing
  chats only.
\<close>

definition members_reference_chats :: "Session \<Rightarrow> bool" where
  "members_reference_chats db =
     list_all (\<lambda>m. member_chat_id m \<in> set (map chat_id (chats db))) (chat_members db)"

definition membership_inv :: "Session \<Rightarrow> bool" where
  "membership_inv db = (at_most_one_active db \<and> members_reference_chats db)"

inductive reachable :: "Session \<Rightarrow> bool" where
  start:
    "users db = [] \<Longrightarrow> chats db = [] \<Longrightarrow> chat_members db = [] \<Longrightarrow> messages db = [] \<Longrightarrow>
     file_attachments db = [] \<Longrightarrow> reachable db"
| clock: "reachable db \<Longrightarrow> reachable (db\<lparr> now := t \<rparr>)"
| register: "reachable db \<Longrightarrow> reachable (db\<lparr> users := users db @ [u] \<rparr>)"
| startup: "reachable db \<Longrightarrow> reachable (lifespan_startup db)"
| create_chat:
    "reachable db \<Longrightarrow> create_private_chat db a b = Inr (db', c) \<Longrightarrow> a \<in> user_ids db \<Longrightarrow>
     reachable db'"
| get_or_create_chat:
    "reachable db \<Longrightarrow> get_or_create_private_chat db a b = Inr (db', c) \<Longrightarrow> a \<in> user_ids db \<Longrightarrow>
     reachable db'"
| list_chats: "reachable db \<Longrightarrow> reachable (fst (get_user_chats db uid))"
| check_member: "reachable db \<Longrightarrow> reachable (fst (is_user_in_chat db cid uid))"
| send: "reachable db \<Longrightarrow> send_message db md uid = Inr (db', m) \<Longrightarrow> reachable db'"
| edit: "reachable db \<Longrightarrow> edit_message db mid new_content uid = Inr (db', m) \<Longrightarrow> reachable db'"
| delete: "reachable db \<Longrightarrow> delete_message db mid uid = Inr (db', r) \<Longrightarrow> reachable db'"
| upload: "reachable db \<Longrightarrow> upload_file db file mid = Inr (db', att) \<Longrightarrow> reachable db'"
| upload_raised: "reachable db \<Longrightarrow> upload_file db file mid = Inl (e, db') \<Longrightarrow> reachable db'"

section \<open>Example states\<close>

definition t0 :: datetime where
  "t0 = \<lparr> year = 2024, month = 3, day = 9, hour = 14, minute = 5, second = 0, microsecond = 0 \<rparr>"

definition chat12 :: Chat where
  "chat12 =
     \<lparr> chat_id = 1, chat_name = None, chat_description = None, chat_type = PRIVATE,
       chat_creator_id = 1, chat_recipient_id = 2, chat_created_at = t0,
       chat_is_active = True \<rparr>"

definition user1 :: User where
  "user1 = \<lparr> user_id = 1, user_username = ''alice'', user_email = ''alice@example.com'',
     user_password = ''x'', user_created_at = t0, user_updated_at = None \<rparr>"

definition user2 :: User where
  "user2 = \<lparr> user_id = 2, user_username = ''bob'', user_email = ''bob@example.com'',
     user_password = ''y'', user_created_at = t0, user_updated_at = None \<rparr>"

text \<open>A chat row with no membership row, as a store filled before memberships existed has it.\<close>

definition legacy_db :: Session where
  "legacy_db =
     \<lparr> users = [user1, user2], chats = [chat12], chat_members = [], messages = [],
       file_attachments = [], now = t0, uploads = Map.empty \<rparr>"

definition empty_db :: Session where
  "empty_db =
     \<lparr> users = [], chats = [], chat_members = [], messages = [],
       file_attachments = [], now = t0, uploads = Map.empty \<rparr>"

definition two_users_db :: Session where
  "two_users_db = empty_db\<lparr> users := [user1, user2] \<rparr>"

definition member1 :: ChatMember where
  "member1 = \<lparr> member_id = 1, member_user_id = 1, member_chat_id = 1, member_role = PARTICIPANT,
        member_status = ACTIVE, member_joined_at = t0 \<rparr>"

definition member2 :: ChatMember where
  "member2 = \<lparr> member_id = 2, member_user_id = 2, member_chat_id = 1, member_role = PARTICIPANT,
        member_status = ACTIVE, member_joined_at = t0 \<rparr>"

definition chat_db :: Session where
  "chat_db = two_users_db\<lparr> chats := [chat12], chat_members := [member1, member2] \<rparr>"

definition t1 :: datetime where
  "t1 = t0\<lparr> minute := 6 \<rparr>"

definition msg1 :: Message where
  "msg1 = \<lparr> msg_id = 1, msg_content = ''hi'', msg_message_type = TEXT, msg_author_id = 1,
     msg_chat_id = 1, msg_created_at = t0, msg_updated_at = None, msg_is_deleted = False \<rparr>"

definition msg2 :: Message where
  "msg2 = \<lparr> msg_id = 2, msg_content = ''gone'', msg_message_type = TEXT, msg_author_id = 2,
     msg_chat_id = 1, msg_created_at = t0\<lparr> second := 30 \<rparr>, msg_updated_at = None,
     msg_is_deleted = True \<rparr>"

definition msg_db :: Session where
  "msg_db = chat_db\<lparr> messages := [msg1, msg2], now := t1 \<rparr>"

definition msg3 :: Message where
  "msg3 = \<lparr> msg_id = 3, msg_content = ''later'', msg_message_type = TEXT, msg_author_id = 2,
     msg_chat_id = 1, msg_created_at = t1, msg_updated_at = None, msg_is_deleted = False \<rparr>"

definition list_db :: Session where
  "list_db = chat_db\<lparr> messages := [msg1, msg2, msg3], now := t1 \<rparr>"

definition md_hi :: message_data where
  "md_hi = \<lparr> md_chat_id = 1, md_content = ''hi'', md_message_type = None \<rparr>"





definition legacy_users_db :: Session where
  "legacy_users_db = legacy_db\<lparr> chat_members := [member2] \<rparr>"

text \<open>A chat row whose creator is its recipient, which no constraint of the tables excludes.\<close>

definition self_chat_db :: Session where
  "self_chat_db =
     two_users_db\<lparr> chats := [chat12\<lparr> chat_recipient_id := 1 \<rparr>], chat_members := [member1] \<rparr>"

section \<open>Lemmas on the store\<close>

lemma fold_max_ge: "(a::int) \<le> fold max xs a"
  by (induction xs arbitrary: a) (auto intro: order_trans [OF max.cobounded2])

lemma fold_max_upper: "x \<in> set xs \<Longrightarrow> (x::int) \<le> fold max xs a"
proof (induction xs arbitrary: a)
  case Nil
  then show ?case by simp
next
  case (Cons y ys)
  show ?case
  proof (cases "x = y")
    case True
    have "y \<le> max y a" by simp
    also have "\<dots> \<le> fold max ys (max y a)" by (rule fold_max_ge)
    finally show ?thesis using True by simp
  next
    case False
    with Cons show ?thesis by simp
  qed
qed

lemma next_id_fresh: "next_id ids \<notin> set ids"
proof
  assume "next_id ids \<in> set ids"
  then have "next_id ids \<le> fold max ids 0" by (rule fold_max_upper)
  then show False by (simp add: next_id_def)
qed

lemma find_primary_key:
  assumes "x \<in> set xs" and "distinct (map k xs)"
  shows "find (\<lambda>y. k y = k x) xs = Some x"
  using assms
proof (induction xs)
  case Nil
  then show ?case by simp
next
  case (Cons y ys)
  then show ?case by (cases "x = y") (auto simp: image_iff)
qed

lemma find_append:
  "find P (xs @ ys) = (case find P xs of None \<Rightarrow> find P ys | Some x \<Rightarrow> Some x)"
  by (induction xs) auto

lemma active_member_None_iff:
  "active_member db cid uid = None \<longleftrightarrow> (cid, uid) \<notin> set (active_pairs (chat_members db))"
  by (auto simp: active_member_def active_pairs_def find_None_iff)

lemma active_member_add_same:
  "active_member db cid uid = None \<Longrightarrow>
   active_member (add_ChatMember db uid cid) cid uid = Some (new_member db uid cid)"
  by (simp add: active_member_def add_ChatMember_def find_append new_member_def)

lemma ensure_user_membership_eq:
  "ensure_user_membership db cid uid =
     (if active_member db cid uid \<noteq> None then db else add_ChatMember db uid cid)"
  by (simp add: ensure_user_membership_def split: option.splits)

lemma active_member_ensure:
  "active_member (ensure_user_membership db cid uid) cid uid \<noteq> None"
  by (auto simp: ensure_user_membership_eq active_member_add_same)

lemma ensure_user_membership_twice:
  "ensure_user_membership (ensure_user_membership db cid uid) cid uid =
   ensure_user_membership db cid uid"
  using active_member_ensure [of db cid uid]
  by (simp add: ensure_user_membership_eq [of "ensure_user_membership db cid uid"])

lemma ensure_user_membership_funpow:
  "((\<lambda>s. ensure_user_membership s cid uid) ^^ n) (ensure_user_membership db cid uid) =
   ensure_user_membership db cid uid"
  by (induction n) (simp_all add: ensure_user_membership_twice)

lemma active_pairs_append: "active_pairs (xs @ ys) = active_pairs xs @ active_pairs ys"
  by (simp add: active_pairs_def)

lemma at_most_one_active_ensure:
  "at_most_one_active (ensure_user_membership db cid uid) = at_most_one_active db"
  by (auto simp: ensure_user_membership_eq at_most_one_active_def add_ChatMember_def
      active_pairs_append active_member_None_iff) (simp_all add: active_pairs_def new_member_def)

lemma active_rows_None:
  "active_member db cid uid = None \<longleftrightarrow> filter (is_active_row cid uid) (chat_members db) = []"
  by (auto simp: active_member_def find_None_iff filter_empty_conv is_active_row_def)

lemma count_active_ensure:
  "length (filter (is_active_row cid uid) (chat_members (ensure_user_membership db cid uid))) =
   max 1 (length (filter (is_active_row cid uid) (chat_members db)))"
proof (cases "active_member db cid uid")
  case None
  then have "filter (is_active_row cid uid) (chat_members db) = []"
    by (simp add: active_rows_None)
  with None show ?thesis
    by (simp add: ensure_user_membership_eq add_ChatMember_def new_member_def is_active_row_def)
next
  case (Some m)
  then have "filter (is_active_row cid uid) (chat_members db) \<noteq> []"
    using active_rows_None [of db cid uid] by simp
  then have "1 \<le> length (filter (is_active_row cid uid) (chat_members db))"
    by (cases "filter (is_active_row cid uid) (chat_members db)") simp_all
  with Some show ?thesis
    by (simp add: ensure_user_membership_eq max_def)
qed

lemma is_user_in_chat_eq:
  assumes "chat \<in> set (chats db)" and "primary_key (map chat_id (chats db))"
    and "uid = chat_creator_id chat \<or> uid = chat_recipient_id chat"
  shows "is_user_in_chat db (chat_id chat) uid =
    (ensure_user_membership db (chat_id chat) uid, True)"
proof -
  have "find (\<lambda>c. chat_id c = chat_id chat) (chats db) = Some chat"
    using assms(1,2) by (simp add: primary_key_def find_primary_key)
  with assms(3) show ?thesis
    by (auto simp: is_user_in_chat_def ensure_user_membership_def split: option.splits)
qed

section \<open>Membership reconciler\<close>

text \<open>
  C1: the creator and the recipient of a chat row are members whether or not a membership
  row exists. For a chat row of the table (ids being a primary key) and \<open>uid\<close> its creator
  or recipient, \<^verbatim>\<open>is_user_in_chat\<close> answers True; the state it leaves holds an ACTIVE row
  for the pair, which is one new ACTIVE PARTICIPANT row appended when there was none (so
  also when the chat had no membership row at all), and no change otherwise; and a second
  call finds that row, answers True and changes nothing.
\<close>

theorem is_user_in_chat_creator_recipient:
  assumes "chat \<in> set (chats db)" and "primary_key (map chat_id (chats db))"
    and "uid = chat_creator_id chat \<or> uid = chat_recipient_id chat"
  shows "snd (is_user_in_chat db (chat_id chat) uid)
    \<and> active_member (fst (is_user_in_chat db (chat_id chat) uid)) (chat_id chat) uid \<noteq> None
    \<and> chat_members (fst (is_user_in_chat db (chat_id chat) uid)) =
        (if active_member db (chat_id chat) uid = None
         then chat_members db @
           [\<lparr> member_id = next_id (map member_id (chat_members db)),
              member_user_id = uid, member_chat_id = chat_id chat,
              member_role = PARTICIPANT, member_status = ACTIVE,
              member_joined_at = now db \<rparr>]
         else chat_members db)
    \<and> is_user_in_chat (fst (is_user_in_chat db (chat_id chat) uid)) (chat_id chat) uid =
        (fst (is_user_in_chat db (chat_id chat) uid), True)"
proof -
  let ?db' = "ensure_user_membership db (chat_id chat) uid"
  have eq: "is_user_in_chat db (chat_id chat) uid = (?db', True)"
    using assms by (rule is_user_in_chat_eq)
  have act: "active_member ?db' (chat_id chat) uid \<noteq> None"
    by (rule active_member_ensure)
  have rows: "chat_members ?db' =
        (if active_member db (chat_id chat) uid = None
         then chat_members db @
           [\<lparr> member_id = next_id (map member_id (chat_members db)),
              member_user_id = uid, member_chat_id = chat_id chat,
              member_role = PARTICIPANT, member_status = ACTIVE,
              member_joined_at = now db \<rparr>]
         else chat_members db)"
    by (simp add: ensure_user_membership_eq add_ChatMember_def new_member_def)
  have again: "is_user_in_chat ?db' (chat_id chat) uid = (?db', True)"
    using act by (auto simp: is_user_in_chat_def split: option.splits)
  show ?thesis
    using act rows again by (simp add: eq)
qed

theorem is_user_in_chat_creator_recipient_witness:
  "snd (is_user_in_chat legacy_db 1 1)
   \<and> chat_members legacy_db = []
   \<and> chat_members (fst (is_user_in_chat legacy_db 1 1)) =
       [\<lparr> member_id = 1, member_user_id = 1, member_chat_id = 1, member_role = PARTICIPANT,
          member_status = ACTIVE, member_joined_at = t0 \<rparr>]
   \<and> is_user_in_chat (fst (is_user_in_chat legacy_db 1 1)) 1 1 =
       (fst (is_user_in_chat legacy_db 1 1), True)"
proof -
  have h1: "chat12 \<in> set (chats legacy_db)"
    by (simp add: legacy_db_def)
  have h2: "primary_key (map chat_id (chats legacy_db))"
    by (simp add: legacy_db_def primary_key_def)
  have h3: "(1::int) = chat_creator_id chat12 \<or> (1::int) = chat_recipient_id chat12"
    by (simp add: chat12_def)
  have none: "active_member legacy_db 1 1 = None"
    by (simp add: legacy_db_def active_member_def)
  have cid: "chat_id chat12 = 1"
    by (simp add: chat12_def)
  show ?thesis
    using is_user_in_chat_creator_recipient [OF h1 h2 h3] none
    by (simp add: cid) (simp add: legacy_db_def next_id_def)
qed

text \<open>
  C4: \<^verbatim>\<open>_ensure_user_membership\<close> keeps at most one ACTIVE row for a pair of chat and user.
  For a chat and a user that exist, it returns the state as it is when the pair has an
  ACTIVE row, and otherwise appends one ACTIVE PARTICIPANT row and changes nothing else;
  the rows there before stay, in place and unchanged; the pair has as many ACTIVE rows
  after the call as before, or one when it had none; calling it again any number of times
  changes nothing more; and the state after the call has at most one ACTIVE row for every
  pair exactly when the state before had.
\<close>

theorem ensure_user_membership_reconciles:
  assumes "cid \<in> set (map chat_id (chats db))" and "uid \<in> user_ids db"
  shows "ensure_user_membership db cid uid =
     (if active_member db cid uid \<noteq> None then db
      else db\<lparr> chat_members := chat_members db @
             [\<lparr> member_id = next_id (map member_id (chat_members db)),
                member_user_id = uid, member_chat_id = cid,
                member_role = PARTICIPANT, member_status = ACTIVE,
                member_joined_at = now db \<rparr>] \<rparr>)
   \<and> take (length (chat_members db)) (chat_members (ensure_user_membership db cid uid)) =
       chat_members db
   \<and> length (filter (is_active_row cid uid) (chat_members (ensure_user_membership db cid uid))) =
       max 1 (length (filter (is_active_row cid uid) (chat_members db)))
   \<and> ((\<lambda>s. ensure_user_membership s cid uid) ^^ n) (ensure_user_membership db cid uid) =
       ensure_user_membership db cid uid
   \<and> at_most_one_active (ensure_user_membership db cid uid) = at_most_one_active db
   \<and> cid \<in> set (map chat_id (chats (ensure_user_membership db cid uid)))
   \<and> uid \<in> user_ids (ensure_user_membership db cid uid)"
proof -
  have "take (length (chat_members db)) (chat_members (ensure_user_membership db cid uid)) =
       chat_members db"
    by (simp add: ensure_user_membership_eq add_ChatMember_def)
  moreover have "cid \<in> set (map chat_id (chats (ensure_user_membership db cid uid)))"
    using assms(1) by (simp add: ensure_user_membership_eq add_ChatMember_def)
  moreover have "uid \<in> user_ids (ensure_user_membership db cid uid)"
    using assms(2) by (simp add: ensure_user_membership_eq add_ChatMember_def user_ids_def)
  ultimately show ?thesis
    using count_active_ensure [where db = db and cid = cid and uid = uid]
      ensure_user_membership_funpow [where db = db and cid = cid and uid = uid and n = n]
      at_most_one_active_ensure [of db cid uid]
    by (simp add: ensure_user_membership_eq add_ChatMember_def new_member_def)
qed

theorem ensure_user_membership_reconciles_witness:
  "1 \<in> set (map chat_id (chats legacy_db)) \<and> 1 \<in> user_ids legacy_db
   \<and> chat_members (ensure_user_membership legacy_db 1 1) =
     [\<lparr> member_id = 1, member_user_id = 1, member_chat_id = 1, member_role = PARTICIPANT,
        member_status = ACTIVE, member_joined_at = t0 \<rparr>]
   \<and> ((\<lambda>s. ensure_user_membership s 1 1) ^^ 3) (ensure_user_membership legacy_db 1 1) =
       ensure_user_membership legacy_db 1 1
   \<and> at_most_one_active (ensure_user_membership legacy_db 1 1)"
proof -
  have h1: "1 \<in> set (map chat_id (chats legacy_db))"
    by (simp add: legacy_db_def chat12_def)
  have h2: "1 \<in> user_ids legacy_db"
    by (simp add: legacy_db_def user_ids_def user1_def)
  have inv: "at_most_one_active legacy_db"
    by (simp add: legacy_db_def at_most_one_active_def active_pairs_def)
  have rows: "chat_members (ensure_user_membership legacy_db 1 1) =
     [\<lparr> member_id = 1, member_user_id = 1, member_chat_id = 1, member_role = PARTICIPANT,
        member_status = ACTIVE, member_joined_at = t0 \<rparr>]"
    by (simp add: ensure_user_membership_def add_ChatMember_def new_member_def legacy_db_def
        active_member_def next_id_def)
  from ensure_user_membership_reconciles [OF h1 h2, of 3]
  have "((\<lambda>s. ensure_user_membership s 1 1) ^^ 3) (ensure_user_membership legacy_db 1 1) =
       ensure_user_membership legacy_db 1 1
     \<and> at_most_one_active (ensure_user_membership legacy_db 1 1) = at_most_one_active legacy_db"
    by blast
  with inv rows h1 h2 show ?thesis by simp
qed

section \<open>Chat directory\<close>

lemma find_user_None: "find (\<lambda>u. user_id u = uid) (users db) = None \<longleftrightarrow> uid \<notin> user_ids db"
  by (auto simp: find_None_iff user_ids_def)

lemma find_private_chat_sym: "find_private_chat db a b = find_private_chat db b a"
  unfolding find_private_chat_def by (rule find_cong) auto

lemma unordered_pair_eq:
  "unordered_pair c = (min a b, max a b) \<longleftrightarrow>
     (chat_creator_id c = a \<and> chat_recipient_id c = b) \<or>
     (chat_creator_id c = b \<and> chat_recipient_id c = a)"
  by (auto simp: unordered_pair_def min_def max_def split: if_splits)

lemma find_private_chat_None:
  "find_private_chat db a b = None \<longleftrightarrow>
     (min a b, max a b) \<notin> set (map unordered_pair (filter (\<lambda>c. chat_type c = PRIVATE) (chats db)))"
proof -
  have "find_private_chat db a b = None \<longleftrightarrow>
      (\<forall>c \<in> set (chats db). chat_type c = PRIVATE \<longrightarrow> unordered_pair c \<noteq> (min a b, max a b))"
    unfolding find_private_chat_def find_None_iff unordered_pair_eq by blast
  also have "\<dots> \<longleftrightarrow> (min a b, max a b) \<notin>
      set (map unordered_pair (filter (\<lambda>c. chat_type c = PRIVATE) (chats db)))"
    by (auto simp: image_iff)
  finally show ?thesis .
qed

lemma chats_ensure [simp]: "chats (ensure_user_membership db cid uid) = chats db"
  by (simp add: ensure_user_membership_eq add_ChatMember_def)

lemma chats_add_ChatMember [simp]: "chats (add_ChatMember db uid cid) = chats db"
  by (simp add: add_ChatMember_def)

lemma find_private_chat_new:
  assumes "find_private_chat db a b = None" and "chats db' = chats db @ [new_chat db a b]"
  shows "find_private_chat db' a b = Some (new_chat db a b)"
  using assms by (simp add: find_private_chat_def find_append new_chat_def)

lemma create_private_chat_new:
  assumes "find_private_chat db a b = None" and "a \<noteq> b" and "b \<in> user_ids db"
  shows "\<exists>db'. create_private_chat db a b = Inr (db', new_chat db a b) \<and>
           chats db' = chats db @ [new_chat db a b]"
proof -
  obtain r where "find (\<lambda>u. user_id u = b) (users db) = Some r"
    using assms(3) find_user_None [of b db] by (cases "find (\<lambda>u. user_id u = b) (users db)") auto
  with assms(1,2) show ?thesis
    by (simp add: create_private_chat_def Let_def)
qed

lemma at_most_one_private_chat_new:
  assumes "find_private_chat db a b = None" and "chats db' = chats db @ [new_chat db a b]"
  shows "at_most_one_private_chat db' = at_most_one_private_chat db"
proof -
  have "unordered_pair (new_chat db a b) = (min a b, max a b)"
    by (simp add: unordered_pair_eq new_chat_def)
  moreover have "chat_type (new_chat db a b) = PRIVATE"
    by (simp add: new_chat_def)
  ultimately show ?thesis
    using assms by (simp add: at_most_one_private_chat_def find_private_chat_None)
qed

lemma get_or_create_two_users:
  "get_or_create_private_chat two_users_db 1 2 = Inr (chat_db, chat12)"
  by (simp add: get_or_create_private_chat_def create_private_chat_def find_private_chat_def
      two_users_db_def empty_db_def chat_db_def user1_def user2_def new_chat_def chat12_def
      add_ChatMember_def new_member_def next_id_def member1_def member2_def Let_def)

lemma find_private_chat_unknown:
  assumes "chats_wellformed db" and "b \<notin> user_ids db"
  shows "find_private_chat db a b = None"
  using assms
  by (auto simp: find_private_chat_def find_None_iff chats_wellformed_def list_all_iff)

lemma find_private_chat_self:
  assumes "chats_wellformed db"
  shows "find_private_chat db a a = None"
  using assms
  by (auto simp: find_private_chat_def find_None_iff chats_wellformed_def list_all_iff)

lemma get_or_create_private_chat_cases:
  "get_or_create_private_chat db a b =
     (case find_private_chat db a b of
        Some chat \<Rightarrow> Inr (db, chat)
      | None \<Rightarrow>
          if b \<notin> user_ids db then Inl (HTTPException HTTP_404_NOT_FOUND ''Recipient user not found'')
          else if a = b then Inl (HTTPException HTTP_400_BAD_REQUEST ''Cannot create chat with yourself'')
          else create_private_chat db a b)"
  using find_user_None [of b db]
  by (auto simp: get_or_create_private_chat_def create_private_chat_def split: option.splits)

text \<open>
  C2: for distinct existing users \<open>a\<close> and \<open>b\<close>, \<^verbatim>\<open>get_or_create_private_chat\<close> returns a
  chat, and called again on the state it leaves, with the two users in either order, it
  returns that same chat row (hence the same id) and changes nothing: the lookup does not
  tell creator from recipient. The state after the first call has at most one PRIVATE chat
  for every unordered pair exactly when the state before had.
\<close>

theorem get_or_create_private_chat_same_chat:
  assumes "a \<noteq> b" and "a \<in> user_ids db" and "b \<in> user_ids db"
  shows "\<exists>db' chat.
           get_or_create_private_chat db a b = Inr (db', chat)
         \<and> get_or_create_private_chat db' a b = Inr (db', chat)
         \<and> get_or_create_private_chat db' b a = Inr (db', chat)
         \<and> find_private_chat db' a b = Some chat
         \<and> find_private_chat db' b a = Some chat
         \<and> at_most_one_private_chat db' = at_most_one_private_chat db"
proof (cases "find_private_chat db a b")
  case None
  from create_private_chat_new [OF None assms(1,3)]
  obtain db' where cr: "create_private_chat db a b = Inr (db', new_chat db a b)"
    and ch: "chats db' = chats db @ [new_chat db a b]"
    by blast
  have f: "find_private_chat db' a b = Some (new_chat db a b)"
    using None ch by (rule find_private_chat_new)
  then have f': "find_private_chat db' b a = Some (new_chat db a b)"
    by (simp add: find_private_chat_sym [of db' b a])
  have "at_most_one_private_chat db' = at_most_one_private_chat db"
    using None ch by (rule at_most_one_private_chat_new)
  with None cr f f' show ?thesis
    by (simp add: get_or_create_private_chat_def)
next
  case (Some chat)
  then have "find_private_chat db b a = Some chat"
    by (simp add: find_private_chat_sym [of db b a])
  with Some show ?thesis
    by (simp add: get_or_create_private_chat_def)
qed

theorem get_or_create_private_chat_same_chat_witness:
  "get_or_create_private_chat two_users_db 1 2 = Inr (chat_db, chat12)
   \<and> get_or_create_private_chat chat_db 1 2 = Inr (chat_db, chat12)
   \<and> get_or_create_private_chat chat_db 2 1 = Inr (chat_db, chat12)
   \<and> at_most_one_private_chat chat_db"
proof -
  have h1: "(1::int) \<noteq> 2" by simp
  have h2: "1 \<in> user_ids two_users_db"
    by (simp add: user_ids_def two_users_db_def user1_def)
  have h3: "2 \<in> user_ids two_users_db"
    by (simp add: user_ids_def two_users_db_def user2_def)
  have inv: "at_most_one_private_chat two_users_db"
    by (simp add: at_most_one_private_chat_def two_users_db_def empty_db_def)
  from get_or_create_private_chat_same_chat [OF h1 h2 h3] inv show ?thesis
    by (auto simp: get_or_create_two_users)
qed

lemma create_private_chat_new_wellformed:
  assumes "chats_wellformed db" and "find_private_chat db a b = None"
    and "a \<noteq> b" and "a \<in> user_ids db" and "b \<in> user_ids db"
  shows "\<exists>db'. create_private_chat db a b = Inr (db', new_chat db a b) \<and> chats_wellformed db'"
proof -
  obtain r where "find (\<lambda>u. user_id u = b) (users db) = Some r"
    using assms(5) find_user_None [of b db] by (cases "find (\<lambda>u. user_id u = b) (users db)") auto
  with assms(2,3)
  have "create_private_chat db a b =
      Inr (add_ChatMember (add_ChatMember (db\<lparr> chats := chats db @ [new_chat db a b] \<rparr>)
             a (chat_id (new_chat db a b))) b (chat_id (new_chat db a b)), new_chat db a b)"
    by (simp add: create_private_chat_def Let_def)
  moreover have "chats_wellformed
      (add_ChatMember (add_ChatMember (db\<lparr> chats := chats db @ [new_chat db a b] \<rparr>)
         a (chat_id (new_chat db a b))) b (chat_id (new_chat db a b)))"
    using assms(1,3,4,5)
    by (simp add: chats_wellformed_def user_ids_def add_ChatMember_def new_chat_def)
  ultimately show ?thesis by blast
qed

text \<open>
  C3, as the code has it: on a store whose chat rows have two distinct users as creator and
  recipient, \<^verbatim>\<open>get_or_create_private_chat\<close> fails with 404 (NotFound) when the second user
  is unknown, also when both arguments are that same unknown id. For a first user that
  exists, as main.py passes it, the call fails with 404 exactly when the second user is
  unknown and with 400 (InvalidRequest) exactly when the two arguments are equal; it fails
  in no other case, and for two distinct existing users it returns a chat and leaves a
  store of the same kind.
\<close>

theorem get_or_create_private_chat_validation:
  assumes "chats_wellformed db"
  shows "(b \<notin> user_ids db \<longrightarrow>
            get_or_create_private_chat db a b =
              Inl (HTTPException HTTP_404_NOT_FOUND ''Recipient user not found''))
       \<and> (a \<in> user_ids db \<longrightarrow>
            (get_or_create_private_chat db a b =
               Inl (HTTPException HTTP_404_NOT_FOUND ''Recipient user not found'')) =
            (b \<notin> user_ids db)
          \<and> (get_or_create_private_chat db a b =
               Inl (HTTPException HTTP_400_BAD_REQUEST ''Cannot create chat with yourself'')) =
            (a = b)
          \<and> (\<exists>e. get_or_create_private_chat db a b = Inl e) = (b \<notin> user_ids db \<or> a = b)
          \<and> (b \<in> user_ids db \<and> a \<noteq> b \<longrightarrow>
               (\<exists>db' chat. get_or_create_private_chat db a b = Inr (db', chat)
                  \<and> chats_wellformed db')))"
proof (cases "b \<in> user_ids db")
  case False
  then have "find_private_chat db a b = None"
    using assms by (simp add: find_private_chat_unknown)
  with False show ?thesis
    by (auto simp: get_or_create_private_chat_cases)
next
  case True
  show ?thesis
  proof (cases "a = b")
    case eq: True
    then have "find_private_chat db a b = None"
      using assms by (simp add: find_private_chat_self)
    with True eq show ?thesis
      by (simp add: get_or_create_private_chat_cases)
  next
    case neq: False
    show ?thesis
    proof (cases "find_private_chat db a b")
      case None
      have "\<exists>db'. create_private_chat db a b = Inr (db', new_chat db a b) \<and> chats_wellformed db'"
        if "a \<in> user_ids db"
        using assms None neq that True by (rule create_private_chat_new_wellformed)
      with None True neq show ?thesis
        by (auto simp: get_or_create_private_chat_cases)
    next
      case (Some chat)
      with True neq assms show ?thesis
        by (auto simp: get_or_create_private_chat_cases)
    qed
  qed
qed

theorem get_or_create_private_chat_validation_witness:
  "chats_wellformed chat_db \<and> 1 \<in> user_ids chat_db
   \<and> get_or_create_private_chat chat_db 7 7 =
       Inl (HTTPException HTTP_404_NOT_FOUND ''Recipient user not found'')
   \<and> get_or_create_private_chat chat_db 1 7 =
       Inl (HTTPException HTTP_404_NOT_FOUND ''Recipient user not found'')
   \<and> get_or_create_private_chat chat_db 1 1 =
       Inl (HTTPException HTTP_400_BAD_REQUEST ''Cannot create chat with yourself'')
   \<and> (\<exists>db' chat. get_or_create_private_chat chat_db 1 2 = Inr (db', chat)
        \<and> chats_wellformed db')"
proof -
  have wf: "chats_wellformed chat_db"
    by (simp add: chats_wellformed_def chat_db_def two_users_db_def empty_db_def user_ids_def
        user1_def user2_def chat12_def)
  have ids: "user_ids chat_db = {1, 2}"
    by (simp add: user_ids_def chat_db_def two_users_db_def user1_def user2_def)
  show ?thesis
    using wf get_or_create_private_chat_validation [OF wf, of 7 7]
      get_or_create_private_chat_validation [OF wf, of 7 1]
      get_or_create_private_chat_validation [OF wf, of 1 1]
      get_or_create_private_chat_validation [OF wf, of 2 1]
    by (simp add: ids)
qed

text \<open>
  C3 as stated fails. The claim includes ids unknown to the Identity Store: with both
  arguments the same unknown id the recipient lookup comes first and the call fails with
  404, not with 400. And on a store that holds a chat row whose creator is its recipient,
  the call for that existing user with itself finds the row and returns it.
\<close>

theorem get_or_create_private_chat_self_counterexample:
  "get_or_create_private_chat chat_db 7 7 =
     Inl (HTTPException HTTP_404_NOT_FOUND ''Recipient user not found'')
   \<and> get_or_create_private_chat chat_db 7 7 \<noteq>
     Inl (HTTPException HTTP_400_BAD_REQUEST ''Cannot create chat with yourself'')
   \<and> 1 \<in> user_ids self_chat_db
   \<and> get_or_create_private_chat self_chat_db 1 1 =
     Inr (self_chat_db, chat12\<lparr> chat_recipient_id := 1 \<rparr>)"
  by (simp add: get_or_create_private_chat_def create_private_chat_def find_private_chat_def
      chat_db_def two_users_db_def empty_db_def self_chat_db_def user_ids_def user1_def
      user2_def chat12_def)

section \<open>Message ledger\<close>

lemma find_chat_id:
  "find (\<lambda>c. chat_id c = cid) (chats db) = Some chat \<Longrightarrow> chat_id chat = cid"
  by (auto simp: find_Some_iff)

lemma send_message_member_eq:
  "send_message_member db cid a =
     (fst (is_user_in_chat db cid a),
      if snd (is_user_in_chat db cid a)
      then active_member (fst (is_user_in_chat db cid a)) cid a else None)"
  by (auto simp: send_message_member_def is_user_in_chat_def Let_def
      split: option.splits dest: find_chat_id)

lemma is_user_in_chat_active:
  "snd (is_user_in_chat db cid a) \<Longrightarrow>
   active_member (fst (is_user_in_chat db cid a)) cid a \<noteq> None"
  using active_member_ensure [of db cid a]
  by (auto simp: is_user_in_chat_def split: option.splits if_splits)

lemma messages_is_user_in_chat:
  "messages (fst (is_user_in_chat db cid a)) = messages db"
  by (auto simp: is_user_in_chat_def ensure_user_membership_eq add_ChatMember_def
      split: option.splits)

lemma send_message_eq:
  "send_message db md a =
     (if snd (is_user_in_chat db (md_chat_id md) a)
      then Inr ((fst (is_user_in_chat db (md_chat_id md) a))
                  \<lparr> messages := messages db @
                      [new_message (fst (is_user_in_chat db (md_chat_id md) a)) md a] \<rparr>,
                new_message (fst (is_user_in_chat db (md_chat_id md) a)) md a)
      else Inl (HTTPException HTTP_403_FORBIDDEN ''You are not a member of this chat''))"
  using is_user_in_chat_active [of db "md_chat_id md" a]
  by (auto simp: send_message_def send_message_member_eq Let_def messages_is_user_in_chat
      split: option.splits)

lemma find_message_None:
  "find (\<lambda>m. msg_id m = mid) (messages db) = None \<longleftrightarrow> mid \<notin> msg_id ` set (messages db)"
  by (auto simp: find_None_iff)

lemma find_message_Some:
  assumes "m \<in> set (messages db)" and "primary_key (map msg_id (messages db))"
  shows "find (\<lambda>x. msg_id x = msg_id m) (messages db) = Some m"
  using assms by (simp add: primary_key_def find_primary_key)

lemma update_message_row:
  assumes "m \<in> set (messages db)" and "primary_key (map msg_id (messages db))"
  shows "update_message db (msg_id m) f =
         db\<lparr> messages := map (\<lambda>x. if x = m then f m else x) (messages db) \<rparr>"
proof -
  have "inj_on msg_id (set (messages db))"
    using assms(2) by (simp add: primary_key_def distinct_map)
  then have "\<And>x. x \<in> set (messages db) \<Longrightarrow> (msg_id x = msg_id m) = (x = m)"
    using assms(1) by (auto dest: inj_onD)
  then have "map (\<lambda>x. if msg_id x = msg_id m then f x else x) (messages db) =
             map (\<lambda>x. if x = m then f m else x) (messages db)"
    by (intro map_cong) auto
  then show ?thesis by (simp add: update_message_def)
qed

lemma delete_message_not_found:
  "(delete_message db mid uid =
      Inl (HTTPException HTTP_404_NOT_FOUND ''Message not found'')) =
   (mid \<notin> msg_id ` set (messages db))"
  using find_message_None [of mid db]
  by (auto simp: delete_message_def split: option.splits)

lemma delete_message_found:
  assumes "m \<in> set (messages db)" and "primary_key (map msg_id (messages db))"
  shows "delete_message db (msg_id m) uid =
          (if msg_author_id m \<noteq> uid
           then Inl (HTTPException HTTP_403_FORBIDDEN ''You can only delete your own messages'')
           else Inr (if msg_is_deleted m then db
                     else db\<lparr> messages :=
                            map (\<lambda>x. if x = m
                                      then m\<lparr> msg_is_deleted := True,
                                              msg_updated_at := Some (now db) \<rparr>
                                      else x)
                              (messages db) \<rparr>,
                     True))"
  using find_message_Some [OF assms] update_message_row [OF assms]
  by (simp add: delete_message_def)

lemma delete_message_again:
  assumes "m \<in> set (messages db)" and "primary_key (map msg_id (messages db))"
    and "msg_author_id m = uid" and "delete_message db (msg_id m) uid = Inr (db', r)"
  shows "delete_message db' (msg_id m) uid = Inr (db', True)
       \<and> list_all (\<lambda>x. msg_id x = msg_id m \<longrightarrow> msg_is_deleted x) (messages db')"
proof (cases "msg_is_deleted m")
  case True
  with assms have db': "db' = db"
    by (simp add: delete_message_found)
  have "inj_on msg_id (set (messages db))"
    using assms(2) by (simp add: primary_key_def distinct_map)
  then have "\<And>x. x \<in> set (messages db) \<Longrightarrow> msg_id x = msg_id m \<Longrightarrow> x = m"
    using assms(1) by (auto dest: inj_onD)
  with True have "list_all (\<lambda>x. msg_id x = msg_id m \<longrightarrow> msg_is_deleted x) (messages db)"
    by (auto simp: list_all_iff)
  with True assms(1,2,3) db' show ?thesis
    by (simp add: delete_message_found)
next
  case False
  let ?m' = "m\<lparr> msg_is_deleted := True, msg_updated_at := Some (now db) \<rparr>"
  let ?f = "\<lambda>x. if x = m then ?m' else x"
  from False assms have db': "db' = db\<lparr> messages := map ?f (messages db) \<rparr>"
    by (simp add: delete_message_found)
  have ids: "map msg_id (messages db') = map msg_id (messages db)"
    unfolding db' by (simp add: comp_def)
  then have pk: "primary_key (map msg_id (messages db'))"
    using assms(2) by simp
  have m': "?m' \<in> set (messages db')"
    using assms(1) unfolding db' by (auto simp: image_iff)
  have inj: "inj_on msg_id (set (messages db))"
    using assms(2) by (simp add: primary_key_def distinct_map)
  have "list_all (\<lambda>x. msg_id x = msg_id m \<longrightarrow> msg_is_deleted x) (messages db')"
    unfolding db' using inj assms(1) by (auto simp: list_all_iff dest: inj_onD)
  moreover have "delete_message db' (msg_id m) uid = Inr (db', True)"
    using assms(3) delete_message_found [OF m' pk, of uid] by simp
  ultimately show ?thesis by simp
qed

lemma newest_first_rev_sort:
  "newest_first (rev (sort_key (\<lambda>m. datetime_key (msg_created_at m)) xs))"
proof -
  have "sorted (map (\<lambda>m. datetime_key (msg_created_at m))
      (sort_key (\<lambda>m. datetime_key (msg_created_at m)) xs))"
    by (rule sorted_sort_key)
  then show ?thesis
    by (simp add: newest_first_def sorted_wrt_rev sorted_map)
qed

lemma get_chat_messages_newest_first: "newest_first (get_chat_messages db cid skip limit)"
  using newest_first_rev_sort
  by (simp add: get_chat_messages_def newest_first_def sorted_wrt_take sorted_wrt_drop)

lemma get_chat_messages_subset:
  "set (get_chat_messages db cid skip limit) \<subseteq>
     {m \<in> set (messages db). msg_chat_id m = cid \<and> \<not> msg_is_deleted m}"
proof -
  have "set (get_chat_messages db cid skip limit) \<subseteq>
      set (rev (sort_key (\<lambda>m. datetime_key (msg_created_at m))
          (filter (\<lambda>m. msg_chat_id m = cid \<and> msg_is_deleted m = False) (messages db))))"
    unfolding get_chat_messages_def
    by (meson set_take_subset set_drop_subset subset_trans)
  then show ?thesis by auto
qed

lemma get_chat_messages_all:
  "set (get_chat_messages db cid 0 (length (messages db))) =
     {m \<in> set (messages db). msg_chat_id m = cid \<and> \<not> msg_is_deleted m}"
proof -
  have "length (filter (\<lambda>m. msg_chat_id m = cid \<and> msg_is_deleted m = False) (messages db)) \<le>
      length (messages db)"
    by (rule length_filter_le)
  then show ?thesis
    by (auto simp: get_chat_messages_def)
qed

lemma get_chat_messages_pages:
  "get_chat_messages db cid skip (l1 + l2) =
   get_chat_messages db cid skip l1 @ get_chat_messages db cid (skip + l1) l2"
  by (simp add: get_chat_messages_def take_add add.commute)

lemma list_db_page: "get_chat_messages list_db 1 0 50 = [msg3, msg1]"
  by (simp add: get_chat_messages_def list_db_def msg1_def msg2_def msg3_def datetime_key_def
      t1_def t0_def)

text \<open>
  C5: \<^verbatim>\<open>send_message\<close> fails with 403 (Forbidden) exactly when \<^verbatim>\<open>is_user_in_chat\<close> answers
  False for the chat and the author, and it fails in no other way. When the answer is True
  it appends one message to the state \<^verbatim>\<open>is_user_in_chat\<close> leaves and returns it: a row
  with a fresh id, the given content, author and chat, \<^verbatim>\<open>is_deleted\<close> False and
  \<^verbatim>\<open>updated_at\<close> null. In particular it succeeds for the creator and the recipient of a
  chat row, whatever membership rows there are, none included.
\<close>

theorem send_message_forbidden_iff_not_member:
  "(send_message db md a =
      Inl (HTTPException HTTP_403_FORBIDDEN ''You are not a member of this chat'')) =
   (\<not> snd (is_user_in_chat db (md_chat_id md) a))
   \<and> (\<exists>e. send_message db md a = Inl e) = (\<not> snd (is_user_in_chat db (md_chat_id md) a))
   \<and> (snd (is_user_in_chat db (md_chat_id md) a) \<longrightarrow>
        (\<exists>m. send_message db md a =
               Inr ((fst (is_user_in_chat db (md_chat_id md) a))
                      \<lparr> messages := messages db @ [m] \<rparr>, m)
           \<and> msg_is_deleted m = False \<and> msg_updated_at m = None
           \<and> msg_content m = md_content md \<and> msg_author_id m = a
           \<and> msg_chat_id m = md_chat_id md
           \<and> msg_id m \<notin> set (map msg_id (messages db))))
   \<and> (chat \<in> set (chats db) \<and> primary_key (map chat_id (chats db))
        \<and> md_chat_id md = chat_id chat
        \<and> (a = chat_creator_id chat \<or> a = chat_recipient_id chat) \<longrightarrow>
        (\<exists>r. send_message db md a = Inr r))"
proof -
  let ?db1 = "fst (is_user_in_chat db (md_chat_id md) a)"
  have fresh: "msg_id (new_message ?db1 md a) \<notin> set (map msg_id (messages db))"
    using next_id_fresh [of "map msg_id (messages db)"]
    by (simp add: new_message_def messages_is_user_in_chat)
  have fields: "msg_is_deleted (new_message ?db1 md a) = False"
    "msg_updated_at (new_message ?db1 md a) = None"
    "msg_content (new_message ?db1 md a) = md_content md"
    "msg_author_id (new_message ?db1 md a) = a"
    "msg_chat_id (new_message ?db1 md a) = md_chat_id md"
    by (simp_all add: new_message_def)
  have implicit: "snd (is_user_in_chat db (md_chat_id md) a)"
    if "chat \<in> set (chats db)" "primary_key (map chat_id (chats db))"
      "md_chat_id md = chat_id chat" "a = chat_creator_id chat \<or> a = chat_recipient_id chat"
    using is_user_in_chat_eq [OF that(1,2,4)] that(3) by simp
  show ?thesis
    using fresh fields implicit by (auto simp: send_message_eq)
qed

theorem send_message_forbidden_iff_not_member_witness:
  "chat_members legacy_db = []
   \<and> snd (is_user_in_chat legacy_db 1 1)
   \<and> (\<exists>r. send_message legacy_db md_hi 1 = Inr r)
   \<and> \<not> snd (is_user_in_chat legacy_db 1 3)
   \<and> send_message legacy_db md_hi 3 =
       Inl (HTTPException HTTP_403_FORBIDDEN ''You are not a member of this chat'')"
proof -
  have h: "chat12 \<in> set (chats legacy_db) \<and> primary_key (map chat_id (chats legacy_db))
        \<and> md_chat_id md_hi = chat_id chat12
        \<and> ((1::int) = chat_creator_id chat12 \<or> (1::int) = chat_recipient_id chat12)"
    by (simp add: legacy_db_def primary_key_def md_hi_def chat12_def)
  have m1: "snd (is_user_in_chat legacy_db 1 1)"
    by (simp add: is_user_in_chat_def legacy_db_def active_member_def chat12_def)
  have m3: "\<not> snd (is_user_in_chat legacy_db 1 3)"
    by (simp add: is_user_in_chat_def legacy_db_def active_member_def chat12_def)
  have c: "md_chat_id md_hi = 1"
    by (simp add: md_hi_def)
  have e: "chat_members legacy_db = []"
    by (simp add: legacy_db_def)
  show ?thesis
    using send_message_forbidden_iff_not_member [of legacy_db md_hi 1 chat12]
      send_message_forbidden_iff_not_member [of legacy_db md_hi 3 chat12] h m1 m3 e
    unfolding c by blast
qed

text \<open>
  C6: \<^verbatim>\<open>edit_message\<close> fails with 404 (NotFound) exactly when no message has the id. For a
  message \<open>m\<close> of the table (ids being a primary key) it fails with 403 (Forbidden) when
  the editor is not the author, whatever the editor's membership; else with 400 (the
  specification's InvalidState) when \<open>m\<close> is deleted; and else it returns \<open>m\<close> with the
  new content and \<^verbatim>\<open>updated_at\<close> set to the current time, all other fields as they were,
  and stores that row in place of \<open>m\<close>, every other row and table unchanged.
\<close>

theorem edit_message_checks:
  "(edit_message db mid new_content uid =
      Inl (HTTPException HTTP_404_NOT_FOUND ''Message not found'')) =
   (mid \<notin> msg_id ` set (messages db))
   \<and> (m \<in> set (messages db) \<and> primary_key (map msg_id (messages db)) \<longrightarrow>
        edit_message db (msg_id m) new_content uid =
          (if msg_author_id m \<noteq> uid
           then Inl (HTTPException HTTP_403_FORBIDDEN ''You can only edit your own messages'')
           else if msg_is_deleted m
           then Inl (HTTPException HTTP_400_BAD_REQUEST ''Cannot edit deleted message'')
           else Inr (db\<lparr> messages :=
                          map (\<lambda>x. if x = m
                                    then m\<lparr> msg_content := new_content,
                                            msg_updated_at := Some (now db) \<rparr>
                                    else x)
                            (messages db) \<rparr>,
                     m\<lparr> msg_content := new_content, msg_updated_at := Some (now db) \<rparr>)))"
proof -
  have nf: "(edit_message db mid new_content uid =
      Inl (HTTPException HTTP_404_NOT_FOUND ''Message not found'')) =
   (mid \<notin> msg_id ` set (messages db))"
    using find_message_None [of mid db]
    by (auto simp: edit_message_def Let_def split: option.splits)
  have found: "edit_message db (msg_id m) new_content uid =
          (if msg_author_id m \<noteq> uid
           then Inl (HTTPException HTTP_403_FORBIDDEN ''You can only edit your own messages'')
           else if msg_is_deleted m
           then Inl (HTTPException HTTP_400_BAD_REQUEST ''Cannot edit deleted message'')
           else Inr (db\<lparr> messages :=
                          map (\<lambda>x. if x = m
                                    then m\<lparr> msg_content := new_content,
                                            msg_updated_at := Some (now db) \<rparr>
                                    else x)
                            (messages db) \<rparr>,
                     m\<lparr> msg_content := new_content, msg_updated_at := Some (now db) \<rparr>))"
    if "m \<in> set (messages db)" "primary_key (map msg_id (messages db))"
    using find_message_Some [OF that] update_message_row [OF that]
    by (simp add: edit_message_def Let_def)
  show ?thesis
    using nf found by blast
qed

theorem edit_message_checks_witness:
  "edit_message msg_db 9 ''new'' 1 = Inl (HTTPException HTTP_404_NOT_FOUND ''Message not found'')
   \<and> active_member msg_db 1 2 \<noteq> None
   \<and> edit_message msg_db 1 ''new'' 2 =
       Inl (HTTPException HTTP_403_FORBIDDEN ''You can only edit your own messages'')
   \<and> edit_message msg_db 2 ''new'' 2 =
       Inl (HTTPException HTTP_400_BAD_REQUEST ''Cannot edit deleted message'')
   \<and> edit_message msg_db 1 ''new'' 1 =
       Inr (msg_db\<lparr> messages := [msg1\<lparr> msg_content := ''new'', msg_updated_at := Some t1 \<rparr>, msg2] \<rparr>,
            msg1\<lparr> msg_content := ''new'', msg_updated_at := Some t1 \<rparr>)"
proof -
  have pk: "primary_key (map msg_id (messages msg_db))"
    by (simp add: primary_key_def msg_db_def msg1_def msg2_def)
  have m1: "msg1 \<in> set (messages msg_db)" and m2: "msg2 \<in> set (messages msg_db)"
    by (simp_all add: msg_db_def)
  have ids: "msg_id ` set (messages msg_db) = {1, 2}"
    by (auto simp: msg_db_def msg1_def msg2_def)
  have ne: "msg1 \<noteq> msg2"
    by (simp add: msg1_def msg2_def)
  have f: "msg_id msg1 = 1" "msg_id msg2 = 2" "msg_author_id msg1 = 1" "msg_author_id msg2 = 2"
    "msg_is_deleted msg1 = False" "msg_is_deleted msg2 = True"
    by (simp_all add: msg1_def msg2_def)
  have mem: "active_member msg_db 1 2 \<noteq> None"
    by (simp add: active_member_def msg_db_def chat_db_def member1_def member2_def)
  have ms: "messages msg_db = [msg1, msg2]" "now msg_db = t1"
    by (simp_all add: msg_db_def)
  show ?thesis
    using edit_message_checks [of msg_db 9 "''new''" 1 msg1]
      edit_message_checks [of msg_db 1 "''new''" 2 msg1]
      edit_message_checks [of msg_db 2 "''new''" 2 msg2]
      edit_message_checks [of msg_db 1 "''new''" 1 msg1]
      pk m1 m2 mem ne
    by (simp add: ids f ms)
qed

text \<open>
  C7: \<^verbatim>\<open>delete_message\<close> fails with 404 (NotFound) exactly when no message has the id. For
  a message \<open>m\<close> of the table (ids being a primary key) it fails with 403 (Forbidden) when
  the requester is not the author, whatever the requester's membership; for the author it
  returns True, and the state it leaves has the flag \<^verbatim>\<open>is_deleted\<close> set on the message
  (with \<^verbatim>\<open>updated_at\<close> by the column's \<^verbatim>\<open>onupdate\<close>) and every other row unchanged. On a
  message deleted already it returns True and changes nothing, so a second call succeeds.
\<close>

theorem delete_message_checks:
  "(delete_message db mid uid =
      Inl (HTTPException HTTP_404_NOT_FOUND ''Message not found'')) =
   (mid \<notin> msg_id ` set (messages db))
   \<and> (m \<in> set (messages db) \<and> primary_key (map msg_id (messages db)) \<longrightarrow>
        delete_message db (msg_id m) uid =
          (if msg_author_id m \<noteq> uid
           then Inl (HTTPException HTTP_403_FORBIDDEN ''You can only delete your own messages'')
           else Inr (if msg_is_deleted m then db
                     else db\<lparr> messages :=
                            map (\<lambda>x. if x = m
                                      then m\<lparr> msg_is_deleted := True,
                                              msg_updated_at := Some (now db) \<rparr>
                                      else x)
                              (messages db) \<rparr>,
                     True))
        \<and> (msg_author_id m = uid \<longrightarrow>
             (\<exists>db'. delete_message db (msg_id m) uid = Inr (db', True)
                \<and> list_all (\<lambda>x. msg_id x = msg_id m \<longrightarrow> msg_is_deleted x) (messages db')
                \<and> delete_message db' (msg_id m) uid = Inr (db', True))))"
proof -
  have again: "\<exists>db'. delete_message db (msg_id m) uid = Inr (db', True)
                \<and> list_all (\<lambda>x. msg_id x = msg_id m \<longrightarrow> msg_is_deleted x) (messages db')
                \<and> delete_message db' (msg_id m) uid = Inr (db', True)"
    if h: "m \<in> set (messages db)" "primary_key (map msg_id (messages db))"
      and a: "msg_author_id m = uid"
  proof -
    obtain db' where d: "delete_message db (msg_id m) uid = Inr (db', True)"
      using a by (simp add: delete_message_found [OF h])
    from delete_message_again [OF h a d] d show ?thesis by blast
  qed
  show ?thesis
    using delete_message_not_found [of db mid uid] delete_message_found [of m db uid] again
    by blast
qed

theorem delete_message_checks_witness:
  "delete_message msg_db 9 1 = Inl (HTTPException HTTP_404_NOT_FOUND ''Message not found'')
   \<and> active_member msg_db 1 2 \<noteq> None
   \<and> delete_message msg_db 1 2 =
       Inl (HTTPException HTTP_403_FORBIDDEN ''You can only delete your own messages'')
   \<and> delete_message msg_db 1 1 =
       Inr (msg_db\<lparr> messages := [msg1\<lparr> msg_is_deleted := True, msg_updated_at := Some t1 \<rparr>, msg2] \<rparr>,
            True)
   \<and> delete_message msg_db 2 2 = Inr (msg_db, True)"
proof -
  have pk: "primary_key (map msg_id (messages msg_db))"
    by (simp add: primary_key_def msg_db_def msg1_def msg2_def)
  have m1: "msg1 \<in> set (messages msg_db)" and m2: "msg2 \<in> set (messages msg_db)"
    by (simp_all add: msg_db_def)
  have ids: "msg_id ` set (messages msg_db) = {1, 2}"
    by (auto simp: msg_db_def msg1_def msg2_def)
  have ne: "msg1 \<noteq> msg2"
    by (simp add: msg1_def msg2_def)
  have f: "msg_id msg1 = 1" "msg_id msg2 = 2" "msg_author_id msg1 = 1" "msg_author_id msg2 = 2"
    "msg_is_deleted msg1 = False" "msg_is_deleted msg2 = True"
    by (simp_all add: msg1_def msg2_def)
  have mem: "active_member msg_db 1 2 \<noteq> None"
    by (simp add: active_member_def msg_db_def chat_db_def member1_def member2_def)
  have ms: "messages msg_db = [msg1, msg2]" "now msg_db = t1"
    by (simp_all add: msg_db_def)
  have a: "delete_message msg_db 9 1 = Inl (HTTPException HTTP_404_NOT_FOUND ''Message not found'')"
    using delete_message_checks [of msg_db 9 1 msg1] by (simp add: ids)
  have b: "delete_message msg_db 1 2 =
       Inl (HTTPException HTTP_403_FORBIDDEN ''You can only delete your own messages'')"
    using delete_message_checks [of msg_db 1 2 msg1] pk m1 by (simp add: f)
  have c: "delete_message msg_db 1 1 =
       Inr (msg_db\<lparr> messages := [msg1\<lparr> msg_is_deleted := True, msg_updated_at := Some t1 \<rparr>, msg2] \<rparr>,
            True)"
    using delete_message_checks [of msg_db 1 1 msg1] pk m1 ne by (simp add: f ms)
  have d: "delete_message msg_db 2 2 = Inr (msg_db, True)"
    using delete_message_checks [of msg_db 2 2 msg2] pk m2 by (simp add: f)
  from a b c d mem show ?thesis by simp
qed

text \<open>
  C8: every message \<^verbatim>\<open>get_chat_messages\<close> returns is a row of the table that belongs to
  the chat and is not deleted; the page is ordered by \<^verbatim>\<open>created_at\<close> descending; it has
  at most \<^verbatim>\<open>limit\<close> rows, so at most 50 with the default arguments; a page of
  \<open>l1 + l2\<close> rows at an offset is the page of \<open>l1\<close> rows there followed by the page of
  \<open>l2\<close> rows at the offset \<open>l1\<close> further; and from offset 0 with a limit large enough
  the page holds all the chat's messages that are not deleted.
\<close>

theorem get_chat_messages_page:
  "list_all (\<lambda>m. \<not> msg_is_deleted m \<and> msg_chat_id m = cid \<and> m \<in> set (messages db))
     (get_chat_messages db cid skip limit)
   \<and> newest_first (get_chat_messages db cid skip limit)
   \<and> length (get_chat_messages db cid skip limit) \<le> limit
   \<and> length (get_chat_messages db cid skip_default limit_default) \<le> 50
   \<and> get_chat_messages db cid skip (l1 + l2) =
       get_chat_messages db cid skip l1 @ get_chat_messages db cid (skip + l1) l2
   \<and> set (get_chat_messages db cid 0 (length (messages db))) =
       {m \<in> set (messages db). msg_chat_id m = cid \<and> \<not> msg_is_deleted m}"
proof -
  have a: "list_all (\<lambda>m. \<not> msg_is_deleted m \<and> msg_chat_id m = cid \<and> m \<in> set (messages db))
     (get_chat_messages db cid skip limit)"
    using get_chat_messages_subset [of db cid skip limit] by (auto simp: list_all_iff)
  have b: "length (get_chat_messages db cid skip limit) \<le> limit" for skip limit
    by (simp add: get_chat_messages_def)
  have c: "length (get_chat_messages db cid skip_default limit_default) \<le> 50"
    using b [of skip_default limit_default] by (simp add: limit_default_def)
  show ?thesis
    using a b c get_chat_messages_newest_first get_chat_messages_pages get_chat_messages_all
    by simp
qed

theorem get_chat_messages_page_witness:
  "get_chat_messages list_db 1 0 50 = [msg3, msg1]
   \<and> msg2 \<in> set (messages list_db) \<and> msg_is_deleted msg2
   \<and> newest_first [msg3, msg1]
   \<and> get_chat_messages list_db 1 0 1 @ get_chat_messages list_db 1 1 49 = [msg3, msg1]"
proof -
  have m: "msg2 \<in> set (messages list_db) \<and> msg_is_deleted msg2"
    by (simp add: list_db_def msg2_def)
  from get_chat_messages_page [of 1 list_db 0 50 1 49]
  have s: "newest_first (get_chat_messages list_db 1 0 50)"
    and p: "get_chat_messages list_db 1 0 (1 + 49) =
      get_chat_messages list_db 1 0 1 @ get_chat_messages list_db 1 (0 + 1) 49"
    by blast+
  from s have "newest_first [msg3, msg1]"
    by (simp add: list_db_page)
  moreover from p have "get_chat_messages list_db 1 0 1 @ get_chat_messages list_db 1 1 49 =
      [msg3, msg1]"
    by (simp add: list_db_page)
  ultimately show ?thesis
    using m by (simp add: list_db_page)
qed

section \<open>Attachment registrar\<close>

lemma digit_no_separator:
  assumes "n < 10"
  shows "''0123456789'' ! n \<noteq> CHR ''/''"
proof -
  from assms have "n \<in> {0, 1, 2, 3, 4, 5, 6, 7, 8, 9}"
    by auto
  then show ?thesis
    by auto
qed

lemma str_nat_no_separator: "CHR ''/'' \<notin> set (str_nat n)"
proof (induction n rule: str_nat.induct)
  case (1 n)
  show ?case
  proof (cases "n < 10")
    case True
    then show ?thesis
      using digit_no_separator [of n] by (subst str_nat.simps) auto
  next
    case False
    have "n mod 10 < 10" by simp
    then have "''0123456789'' ! (n mod 10) \<noteq> CHR ''/''"
      by (rule digit_no_separator)
    with False "1.IH" show ?thesis
      by (subst str_nat.simps) auto
  qed
qed

lemma upload_file_eq:
  "upload_file db file message_id =
     (if \<exists>n. uf_size file = Some n \<and> MAX_FILE_SIZE < n
      then Inl (Http (HTTPException HTTP_400_BAD_REQUEST
                        ''File size exceeds maximum allowed size''), db)
      else if lower (snd (splitext (uf_filename file))) \<notin> ALLOWED_EXTENSIONS
      then Inl (Http (HTTPException HTTP_400_BAD_REQUEST ''File type not allowed''), db)
      else if CHR ''/'' \<in> set (uf_filename file) then Inl (OSError, db)
      else
        (let file_path = path_join UPLOAD_DIR (strftime (now db) @ ''_'' @ uf_filename file);
             attachment =
               \<lparr> att_id = next_id (map att_id (file_attachments db)),
                 att_filename = uf_filename file,
                 att_file_path = file_path,
                 att_file_size = length (uf_file file),
                 att_mime_type =
                   (case uf_content_type file of
                      None \<Rightarrow> ''application/octet-stream''
                    | Some t \<Rightarrow> if t = [] then ''application/octet-stream'' else t),
                 att_message_id = message_id,
                 att_uploaded_at = now db \<rparr>
         in if message_id \<notin> set (map msg_id (messages db))
            then Inl (IntegrityError, db\<lparr> uploads := (uploads db)(file_path \<mapsto> uf_file file) \<rparr>)
            else Inr (db\<lparr> uploads := (uploads db)(file_path \<mapsto> uf_file file),
                         file_attachments := file_attachments db @ [attachment] \<rparr>,
                      attachment)))"
proof -
  have size: "(case uf_size file of None \<Rightarrow> False | Some n \<Rightarrow> n \<noteq> 0 \<and> n > MAX_FILE_SIZE) =
        (\<exists>n. uf_size file = Some n \<and> MAX_FILE_SIZE < n)"
    by (auto split: option.splits)
  have "CHR ''/'' \<notin> set (strftime (now db))"
    by (simp add: strftime_def two_digits_def str_nat_no_separator)
  then have sep: "(CHR ''/'' \<in> set (strftime (now db) @ ''_'' @ uf_filename file)) =
        (CHR ''/'' \<in> set (uf_filename file))"
    by simp
  show ?thesis
    unfolding upload_file_def Let_def size sep by simp
qed







section \<open>Participants\<close>

lemma active_member_Some_iff:
  "active_member db cid uid \<noteq> None \<longleftrightarrow>
     uid \<in> set (map member_user_id
       (filter (\<lambda>m. member_chat_id m = cid \<and> member_status m = ACTIVE) (chat_members db)))"
  by (auto simp: active_member_def find_None_iff image_iff)

lemma get_chat_participants_eq:
  "get_chat_participants db cid =
     filter (\<lambda>u. active_member db cid (user_id u) \<noteq> None) (users db)"
  unfolding get_chat_participants_def Let_def
  by (rule filter_cong) (simp_all only: active_member_Some_iff)

text \<open>
  C10: \<^verbatim>\<open>get_chat_participants\<close> returns the users with an ACTIVE membership row for the
  chat, in the order of the users table, and nothing else; it reads the state and returns
  no new one. A creator or recipient of a chat row who has no ACTIVE row is not among the
  users returned, although \<^verbatim>\<open>is_user_in_chat\<close> answers True for that user.
\<close>

theorem get_chat_participants_explicit_only:
  "get_chat_participants db cid =
     filter (\<lambda>u. active_member db cid (user_id u) \<noteq> None) (users db)
   \<and> (chat \<in> set (chats db) \<and> primary_key (map chat_id (chats db))
        \<and> (uid = chat_creator_id chat \<or> uid = chat_recipient_id chat)
        \<and> active_member db (chat_id chat) uid = None \<longrightarrow>
        uid \<notin> user_id ` set (get_chat_participants db (chat_id chat))
        \<and> snd (is_user_in_chat db (chat_id chat) uid))"
proof -
  have "uid \<notin> user_id ` set (get_chat_participants db (chat_id chat))"
    if "active_member db (chat_id chat) uid = None"
    using that by (auto simp: get_chat_participants_eq)
  moreover have "snd (is_user_in_chat db (chat_id chat) uid)"
    if "chat \<in> set (chats db)" "primary_key (map chat_id (chats db))"
      "uid = chat_creator_id chat \<or> uid = chat_recipient_id chat"
    using is_user_in_chat_eq [OF that] by simp
  ultimately show ?thesis
    using get_chat_participants_eq by blast
qed

theorem get_chat_participants_explicit_only_witness:
  "user1 \<in> set (users legacy_users_db)
   \<and> chat_creator_id chat12 = user_id user1
   \<and> get_chat_participants legacy_users_db 1 = [user2]
   \<and> snd (is_user_in_chat legacy_users_db 1 1)"
proof -
  have h: "chat12 \<in> set (chats legacy_users_db)
        \<and> primary_key (map chat_id (chats legacy_users_db))
        \<and> ((1::int) = chat_creator_id chat12 \<or> (1::int) = chat_recipient_id chat12)
        \<and> active_member legacy_users_db (chat_id chat12) 1 = None"
    by (simp add: legacy_users_db_def legacy_db_def primary_key_def chat12_def active_member_def
        member2_def)
  have c: "chat_id chat12 = 1"
    by (simp add: chat12_def)
  have p: "filter (\<lambda>u. active_member legacy_users_db 1 (user_id u) \<noteq> None)
      (users legacy_users_db) = [user2]"
    by (simp add: legacy_users_db_def legacy_db_def active_member_def member2_def user1_def
        user2_def)
  have u: "user1 \<in> set (users legacy_users_db) \<and> chat_creator_id chat12 = user_id user1"
    by (simp add: legacy_users_db_def legacy_db_def chat12_def user1_def)
  from get_chat_participants_explicit_only [of legacy_users_db 1 chat12 1] h u show ?thesis
    unfolding c p by blast
qed

section \<open>Invariants of the reachable states\<close>

text \<open>
  The invariants the claims above take as hypotheses or preserve hold in every reachable
  state: at most one ACTIVE membership row for a pair of chat and user, at most one PRIVATE
  chat for an unordered pair of users, and ids that are primary keys.
\<close>

lemma membership_inv_cong:
  "chats db' = chats db \<Longrightarrow> chat_members db' = chat_members db \<Longrightarrow>
   membership_inv db' = membership_inv db"
  by (simp add: membership_inv_def at_most_one_active_def members_reference_chats_def)

lemma chat_members_ensure_cases:
  "chat_members (ensure_user_membership db cid uid) = chat_members db \<or>
   chat_members (ensure_user_membership db cid uid) = chat_members db @ [new_member db uid cid]"
  by (simp add: ensure_user_membership_eq add_ChatMember_def)

lemma membership_inv_ensure:
  assumes "membership_inv db" and "cid \<in> set (map chat_id (chats db))"
  shows "membership_inv (ensure_user_membership db cid uid)"
proof -
  have "members_reference_chats (ensure_user_membership db cid uid)"
    using assms chat_members_ensure_cases [of db cid uid]
    by (auto simp: membership_inv_def members_reference_chats_def new_member_def)
  with assms(1) show ?thesis
    by (simp add: membership_inv_def at_most_one_active_ensure)
qed

lemma membership_inv_ensure_both:
  assumes "membership_inv db" and "chat_id chat \<in> set (map chat_id (chats db))"
  shows "membership_inv (ensure_both chat db)"
  unfolding ensure_both_def
  using assms by (intro membership_inv_ensure) simp_all

lemma chats_ensure_both [simp]: "chats (ensure_both chat db) = chats db"
  by (simp add: ensure_both_def)

lemma fold_ensure_both:
  assumes "membership_inv db" and "set cs \<subseteq> set (chats db)"
  shows "membership_inv (fold ensure_both cs db) \<and> chats (fold ensure_both cs db) = chats db"
  using assms
proof (induction cs arbitrary: db)
  case Nil
  then show ?case by simp
next
  case (Cons c cs)
  have "membership_inv (ensure_both c db)"
    using Cons.prems by (intro membership_inv_ensure_both) auto
  moreover have "set cs \<subseteq> set (chats (ensure_both c db))"
    using Cons.prems by simp
  ultimately show ?case
    using Cons.IH [of "ensure_both c db"] by simp
qed

lemma membership_inv_is_user_in_chat:
  assumes "membership_inv db"
  shows "membership_inv (fst (is_user_in_chat db cid uid))"
proof (cases "active_member db cid uid")
  case (Some m)
  with assms show ?thesis by (simp add: is_user_in_chat_def)
next
  case None
  show ?thesis
  proof (cases "find (\<lambda>c. chat_id c = cid) (chats db)")
    case n: None
    with None assms show ?thesis by (simp add: is_user_in_chat_def)
  next
    case (Some chat)
    then have "cid \<in> set (map chat_id (chats db))"
      by (auto simp: find_Some_iff)
    then have "membership_inv (ensure_user_membership db cid uid)"
      using assms by (intro membership_inv_ensure)
    with None Some assms show ?thesis by (simp add: is_user_in_chat_def)
  qed
qed

lemma membership_inv_new_chat:
  assumes "membership_inv db" and "a \<noteq> b"
    and "chats db1 = chats db @ [new_chat db a b]" and "chat_members db1 = chat_members db"
  shows "membership_inv
           (add_ChatMember (add_ChatMember db1 a (chat_id (new_chat db a b))) b
              (chat_id (new_chat db a b)))"
proof -
  let ?cid = "chat_id (new_chat db a b)"
  have fresh: "?cid \<notin> set (map chat_id (chats db))"
    using next_id_fresh [of "map chat_id (chats db)"] by (simp add: new_chat_def)
  have "\<forall>m \<in> set (chat_members db). member_chat_id m \<in> set (map chat_id (chats db))"
    using assms(1) by (simp add: membership_inv_def members_reference_chats_def list_all_iff)
  with fresh have "\<And>m. m \<in> set (chat_members db) \<Longrightarrow> member_chat_id m \<noteq> ?cid"
    by metis
  then have none: "\<And>u. (?cid, u) \<notin> set (active_pairs (chat_members db))"
    by (fastforce simp: active_pairs_def)
  have "at_most_one_active
           (add_ChatMember (add_ChatMember db1 a ?cid) b ?cid)"
    using assms(1,2,4) none
    by (simp add: membership_inv_def at_most_one_active_def add_ChatMember_def active_pairs_append)
      (simp add: active_pairs_def new_member_def)
  moreover have "members_reference_chats
           (add_ChatMember (add_ChatMember db1 a ?cid) b ?cid)"
    using assms(1,3,4)
    by (auto simp: membership_inv_def members_reference_chats_def add_ChatMember_def
        new_member_def list_all_iff)
  ultimately show ?thesis by (simp add: membership_inv_def)
qed

lemma membership_inv_create_private_chat:
  assumes "membership_inv db" and "create_private_chat db a b = Inr (db', c)"
  shows "membership_inv db'"
proof (cases "find_private_chat db a b")
  case None
  with assms(2) have ne: "a \<noteq> b"
    and db': "db' = add_ChatMember (add_ChatMember (db\<lparr> chats := chats db @ [new_chat db a b] \<rparr>)
        a (chat_id (new_chat db a b))) b (chat_id (new_chat db a b))"
    by (auto simp: create_private_chat_def Let_def split: option.splits if_splits)
  show ?thesis
    unfolding db' using assms(1) ne by (rule membership_inv_new_chat) simp_all
next
  case (Some chat)
  then have "chat \<in> set (chats db)"
    by (auto simp: find_private_chat_def find_Some_iff)
  then have cid: "chat_id chat \<in> set (map chat_id (chats db))"
    by simp
  from Some assms(2)
  have db': "db' = ensure_user_membership (ensure_user_membership db (chat_id chat) a) (chat_id chat) b"
    by (auto simp: create_private_chat_def split: option.splits if_splits)
  show ?thesis
    unfolding db' using assms(1) cid by (intro membership_inv_ensure) simp_all
qed

lemma membership_inv_send_message:
  assumes "membership_inv db" and "send_message db md uid = Inr (db', m)"
  shows "membership_inv db'"
proof -
  let ?db1 = "fst (is_user_in_chat db (md_chat_id md) uid)"
  from assms(2) have "chats db' = chats ?db1" and "chat_members db' = chat_members ?db1"
    by (auto simp: send_message_eq split: if_splits)
  then have "membership_inv db' = membership_inv ?db1"
    by (rule membership_inv_cong)
  with assms(1) show ?thesis
    by (simp add: membership_inv_is_user_in_chat)
qed

lemma fst_get_user_chats:
  "fst (get_user_chats db uid) =
     fold ensure_both
       (filter (\<lambda>c. chat_creator_id c = uid \<or> chat_recipient_id c = uid) (chats db)) db"
  by (auto simp: get_user_chats_def Let_def)

theorem reachable_membership_inv: "reachable db \<Longrightarrow> membership_inv db"
proof (induction rule: reachable.induct)
  case (start db)
  then show ?case
    by (simp add: membership_inv_def at_most_one_active_def active_pairs_def
        members_reference_chats_def)
next
  case (clock db t)
  then show ?case by (simp add: membership_inv_cong [of "db\<lparr> now := t \<rparr>" db])
next
  case (register db u)
  then show ?case by (simp add: membership_inv_cong [of "db\<lparr> users := users db @ [u] \<rparr>" db])
next
  case (startup db)
  then show ?case
    using fold_ensure_both [of db "chats db"] by (simp add: lifespan_startup_def)
next
  case (create_chat db a b db' c)
  then show ?case by (auto intro: membership_inv_create_private_chat)
next
  case (get_or_create_chat db a b db' c)
  then show ?case
    by (auto simp: get_or_create_private_chat_def split: option.splits
        intro: membership_inv_create_private_chat)
next
  case (list_chats db uid)
  have "membership_inv
      (fold ensure_both (filter (\<lambda>c. chat_creator_id c = uid \<or> chat_recipient_id c = uid) (chats db)) db)"
    using list_chats.IH
      fold_ensure_both [of db "filter (\<lambda>c. chat_creator_id c = uid \<or> chat_recipient_id c = uid) (chats db)"]
    by simp
  then show ?case by (simp add: fst_get_user_chats)
next
  case (check_member db cid uid)
  then show ?case by (simp add: membership_inv_is_user_in_chat)
next
  case (send db md uid db' m)
  then show ?case by (auto intro: membership_inv_send_message)
next
  case (edit db mid new_content uid db' m)
  from edit.hyps(2) have "chats db' = chats db" and "chat_members db' = chat_members db"
    by (auto simp: edit_message_def update_message_def Let_def split: option.splits if_splits)
  then have "membership_inv db' = membership_inv db" by (rule membership_inv_cong)
  with edit.IH show ?case by simp
next
  case (delete db mid uid db' r)
  from delete.hyps(2) have "chats db' = chats db" and "chat_members db' = chat_members db"
    by (auto simp: delete_message_def update_message_def split: option.splits if_splits)
  then have "membership_inv db' = membership_inv db" by (rule membership_inv_cong)
  with delete.IH show ?case by simp
next
  case (upload db upl mid db' att)
  from upload.hyps(2) have "chats db' = chats db" and "chat_members db' = chat_members db"
    by (auto simp: upload_file_eq Let_def split: if_splits)
  then have "membership_inv db' = membership_inv db" by (rule membership_inv_cong)
  with upload.IH show ?case by simp
next
  case (upload_raised db upl mid e db')
  from upload_raised.hyps(2) have "chats db' = chats db" and "chat_members db' = chat_members db"
    by (auto simp: upload_file_eq Let_def split: if_splits)
  then have "membership_inv db' = membership_inv db" by (rule membership_inv_cong)
  with upload_raised.IH show ?case by simp
qed

lemma at_most_one_private_chat_cong:
  "chats db' = chats db \<Longrightarrow> at_most_one_private_chat db' = at_most_one_private_chat db"
  by (simp add: at_most_one_private_chat_def)

lemma chats_fold_ensure_both [simp]: "chats (fold ensure_both cs db) = chats db"
  by (induction cs arbitrary: db) simp_all

lemma chats_is_user_in_chat [simp]: "chats (fst (is_user_in_chat db cid uid)) = chats db"
  by (simp add: is_user_in_chat_def split: option.splits)

lemma at_most_one_private_chat_create:
  assumes "create_private_chat db a b = Inr (db', c)"
  shows "at_most_one_private_chat db' = at_most_one_private_chat db"
proof (cases "find_private_chat db a b")
  case None
  with assms have "chats db' = chats db @ [new_chat db a b]"
    by (auto simp: create_private_chat_def Let_def split: option.splits if_splits)
  with None show ?thesis by (rule at_most_one_private_chat_new)
next
  case (Some chat)
  with assms have "chats db' = chats db"
    by (auto simp: create_private_chat_def split: option.splits if_splits)
  then show ?thesis by (rule at_most_one_private_chat_cong)
qed

theorem reachable_at_most_one_private_chat: "reachable db \<Longrightarrow> at_most_one_private_chat db"
proof (induction rule: reachable.induct)
  case (start db)
  then show ?case by (simp add: at_most_one_private_chat_def)
next
  case (clock db t)
  then show ?case by (simp add: at_most_one_private_chat_def)
next
  case (register db u)
  then show ?case by (simp add: at_most_one_private_chat_def)
next
  case (startup db)
  then show ?case by (simp add: at_most_one_private_chat_def lifespan_startup_def)
next
  case (create_chat db a b db' c)
  then show ?case by (simp add: at_most_one_private_chat_create)
next
  case (get_or_create_chat db a b db' c)
  then show ?case
    by (auto simp: get_or_create_private_chat_def at_most_one_private_chat_create
        split: option.splits)
next
  case (list_chats db uid)
  then show ?case by (simp add: at_most_one_private_chat_def fst_get_user_chats)
next
  case (check_member db cid uid)
  then show ?case by (simp add: at_most_one_private_chat_def)
next
  case (send db md uid db' m)
  from send.hyps(2) have "chats db' = chats db"
    by (auto simp: send_message_eq split: if_splits)
  with send.IH show ?case by (simp add: at_most_one_private_chat_def)
next
  case (edit db mid new_content uid db' m)
  from edit.hyps(2) have "chats db' = chats db"
    by (auto simp: edit_message_def update_message_def Let_def split: option.splits if_splits)
  with edit.IH show ?case by (simp add: at_most_one_private_chat_def)
next
  case (delete db mid uid db' r)
  from delete.hyps(2) have "chats db' = chats db"
    by (auto simp: delete_message_def update_message_def split: option.splits if_splits)
  with delete.IH show ?case by (simp add: at_most_one_private_chat_def)
next
  case (upload db upl mid db' att)
  from upload.hyps(2) have "chats db' = chats db"
    by (auto simp: upload_file_eq Let_def split: if_splits)
  with upload.IH show ?case by (simp add: at_most_one_private_chat_def)
next
  case (upload_raised db upl mid e db')
  from upload_raised.hyps(2) have "chats db' = chats db"
    by (auto simp: upload_file_eq Let_def split: if_splits)
  with upload_raised.IH show ?case by (simp add: at_most_one_private_chat_def)
qed

lemma messages_fold_ensure_both [simp]: "messages (fold ensure_both cs db) = messages db"
  by (induction cs arbitrary: db)
    (simp_all add: ensure_both_def ensure_user_membership_eq add_ChatMember_def)

lemma messages_create_private_chat:
  "create_private_chat db a b = Inr (db', c) \<Longrightarrow> messages db' = messages db"
  by (auto simp: create_private_chat_def Let_def ensure_user_membership_eq add_ChatMember_def
      split: option.splits if_splits)

lemma chats_create_private_chat:
  "create_private_chat db a b = Inr (db', c) \<Longrightarrow>
   chats db' = chats db \<or> chats db' = chats db @ [new_chat db a b]"
  by (auto simp: create_private_chat_def Let_def split: option.splits if_splits)

lemma primary_key_chats_create:
  assumes "primary_key (map chat_id (chats db))" and "create_private_chat db a b = Inr (db', c)"
  shows "primary_key (map chat_id (chats db'))"
  using assms(1) chats_create_private_chat [OF assms(2)]
    next_id_fresh [of "map chat_id (chats db)"]
  by (auto simp: primary_key_def new_chat_def)

lemma msg_id_update_message [simp]:
  "(\<And>m. msg_id (f m) = msg_id m) \<Longrightarrow>
   map msg_id (messages (update_message db mid f)) = map msg_id (messages db)"
  by (simp add: update_message_def comp_def)

theorem reachable_primary_keys:
  "reachable db \<Longrightarrow>
   primary_key (map chat_id (chats db)) \<and> primary_key (map msg_id (messages db))"
proof (induction rule: reachable.induct)
  case (start db)
  then show ?case by (simp add: primary_key_def)
next
  case (clock db t)
  then show ?case by simp
next
  case (register db u)
  then show ?case by simp
next
  case (startup db)
  then show ?case by (simp add: lifespan_startup_def)
next
  case (create_chat db a b db' c)
  then show ?case
    using primary_key_chats_create [of db a b db' c] messages_create_private_chat [of db a b db' c]
    by simp
next
  case (get_or_create_chat db a b db' c)
  then show ?case
    using primary_key_chats_create [of db a b db' c] messages_create_private_chat [of db a b db' c]
    by (auto simp: get_or_create_private_chat_def split: option.splits)
next
  case (list_chats db uid)
  then show ?case by (simp add: fst_get_user_chats)
next
  case (check_member db cid uid)
  then show ?case by (simp add: messages_is_user_in_chat)
next
  case (send db md uid db' m)
  let ?db1 = "fst (is_user_in_chat db (md_chat_id md) uid)"
  from send.hyps(2) have c: "chats db' = chats db"
    and ms: "messages db' = messages db @ [new_message ?db1 md uid]"
    by (auto simp: send_message_eq split: if_splits)
  have "msg_id (new_message ?db1 md uid) \<notin> set (map msg_id (messages db))"
    using next_id_fresh [of "map msg_id (messages db)"]
    by (simp add: new_message_def messages_is_user_in_chat)
  with send.IH c ms show ?case by (simp add: primary_key_def)
next
  case (edit db mid new_content uid db' m)
  from edit.hyps(2) have "chats db' = chats db"
    and "map msg_id (messages db') = map msg_id (messages db)"
    by (auto simp: edit_message_def Let_def update_message_def comp_def
        split: option.splits if_splits)
  with edit.IH show ?case by simp
next
  case (delete db mid uid db' r)
  from delete.hyps(2) have "chats db' = chats db"
    and "map msg_id (messages db') = map msg_id (messages db)"
    by (auto simp: delete_message_def update_message_def comp_def
        split: option.splits if_splits)
  with delete.IH show ?case by simp
next
  case (upload db upl mid db' att)
  from upload.hyps(2) have "chats db' = chats db" and "messages db' = messages db"
    by (auto simp: upload_file_eq Let_def split: if_splits)
  with upload.IH show ?case by simp
next
  case (upload_raised db upl mid e db')
  from upload_raised.hyps(2) have "chats db' = chats db" and "messages db' = messages db"
    by (auto simp: upload_file_eq Let_def split: if_splits)
  with upload_raised.IH show ?case by simp
qed

lemma reachable_chat_db: "reachable chat_db"
proof -
  have "reachable empty_db"
    by (rule reachable.start) (simp_all add: empty_db_def)
  then have "reachable (empty_db\<lparr> users := users empty_db @ [user1] \<rparr>)"
    by (rule reachable.register)
  then have "reachable (empty_db\<lparr> users := users empty_db @ [user1] \<rparr>
      \<lparr> users := users (empty_db\<lparr> users := users empty_db @ [user1] \<rparr>) @ [user2] \<rparr>)"
    by (rule reachable.register)
  then have r: "reachable two_users_db"
    by (simp add: two_users_db_def empty_db_def)
  have u: "1 \<in> user_ids two_users_db"
    by (simp add: user_ids_def two_users_db_def user1_def)
  show ?thesis
    by (rule reachable.get_or_create_chat [OF r get_or_create_two_users u])
qed

end
